theory Spec2Isabelle
  imports Main "HOL-Library.Word"
begin

section \<open>Values of the program\<close>

text \<open>
  Errors are Go \<open>error\<close> values. An error that a collaborator or a library hands back
  is opaque (\<open>ApiError\<close>); \<open>fmt.Errorf(format, args...)\<close> is kept as its format string
  and its arguments, and \<open>strconv.Atoi\<close> fails with a \<open>*NumError\<close>.
\<close>

datatype error =
    ApiError string
  | fmt_Errorf string "fmtarg list"
  | NumError string string string
and fmtarg = AStr string | AInt int | AErr error

text \<open>
  What a call of the program can end in: it returns, the process exits
  (\<open>os.Exit\<close>, reached through \<open>action.Fatalf\<close>), or the runtime panics (index out of
  range, nil dereference).
\<close>

datatype 'a outcome = Return 'a | Exit int | Panic

subsection \<open>Shapes of the cloud APIs the code reads and writes\<close>

text \<open>Pointer fields of SDK outputs are options: \<open>None\<close> is a nil pointer.\<close>

record Instance =
  inst_InstanceId :: "string option"
  inst_State :: "string option"

record Reservation =
  Instances :: "Instance list"

record DescribeInstancesOutput =
  Reservations :: "Reservation list"

record RunInstancesOutput =
  run_Instances :: "Instance list"

record TagSpecification =
  ResourceType :: string
  Tags :: "(string \<times> string) list"

record RunInstancesInput =
  ImageId :: string
  InstanceType :: string
  MaxCount :: int
  MinCount :: int
  Monitoring :: bool
  SubnetId :: string
  SecurityGroupIds :: "string list"
  UserData :: string
  TagSpecifications :: "TagSpecification list"
  IamInstanceProfile :: "string option"

record Role =
  RoleName :: "string option"

record InstanceProfile =
  InstanceProfileName :: "string option"
  Roles :: "Role list"

record ListInstanceProfilesOutput =
  InstanceProfiles :: "InstanceProfile list"

record InstanceInformation =
  info_InstanceId :: "string option"
  PingStatus :: string

record DescribeInstanceInformationOutput =
  InstanceInformationList :: "InstanceInformation list"

record SendCommandOutput =
  Command :: "string option option"

record GetCommandInvocationOutput =
  Status :: string
  ResponseCode :: int
  StandardOutputContent :: "string option"
  StandardErrorContent :: "string option"

text \<open>The requests the program can issue, with the parameters it sets.\<close>

datatype request =
    RunInstancesReq RunInstancesInput
  | DescribeInstancesReq "string list"
  | TerminateInstancesReq "string list"
  | ListInstanceProfilesReq
  | CreateInstanceProfileReq string
  | AddRoleToInstanceProfileReq string string
  | DescribeInstanceInformationReq string "string list"
  | SendCommandReq "string list" string "string list"
  | GetCommandInvocationReq string string

text \<open>Everything observable that a run does, in order.\<close>

datatype event =
    Call request
  | Sleep int
  | Infof string "fmtarg list"
  | Warningf string "fmtarg list"
  | Errorf string "fmtarg list"
  | Group string
  | EndGroup
  | SetOutput string string
  | LoadDefaultConfig

section \<open>The world a run happens in\<close>

text \<open>
  The collaborators are external services. A world holds the clock (nanoseconds), the
  trace of events so far, and for every API operation the answers it will give to the
  calls still to come: \<open>r 0\<close> answers the next call, \<open>r 1\<close> the one after. Every call
  takes \<open>latency 0\<close> nanoseconds of the clock. Any behaviour of a collaborator during one
  run is such a sequence of answers.
\<close>

record world =
  clock :: int
  trace :: "event list"
  latency :: "nat \<Rightarrow> nat"
  RunInstances_r :: "nat \<Rightarrow> error + RunInstancesOutput"
  DescribeInstances_r :: "nat \<Rightarrow> error + DescribeInstancesOutput"
  TerminateInstances_r :: "nat \<Rightarrow> error option"
  ListInstanceProfiles_r :: "nat \<Rightarrow> error + ListInstanceProfilesOutput"
  CreateInstanceProfile_r :: "nat \<Rightarrow> error option"
  AddRoleToInstanceProfile_r :: "nat \<Rightarrow> error option"
  DescribeInstanceInformation_r :: "nat \<Rightarrow> error + DescribeInstanceInformationOutput"
  SendCommand_r :: "nat \<Rightarrow> error + SendCommandOutput"
  GetCommandInvocation_r :: "nat \<Rightarrow> error + GetCommandInvocationOutput"

definition emit :: "event \<Rightarrow> world \<Rightarrow> world" where
  "emit e w = w\<lparr>trace := trace w @ [e]\<rparr>"

definition issue :: "request \<Rightarrow> world \<Rightarrow> world" where
  "issue req w =
     w\<lparr>clock := clock w + int (latency w 0),
       trace := trace w @ [Call req],
       latency := (\<lambda>n. latency w (Suc n))\<rparr>"

definition Second :: int where
  "Second = 1000000000"

text \<open>\<open>time.Duration(n) * time.Second\<close>: a product of 64-bit signed integers, which wraps.\<close>

definition seconds :: "int \<Rightarrow> int" where
  "seconds n = sint (word_of_int (n * Second) :: 64 word)"

text \<open>\<open>time.Sleep(d)\<close> returns at once when \<open>d\<close> is zero or negative.\<close>

definition time_Sleep :: "int \<Rightarrow> world \<Rightarrow> world" where
  "time_Sleep d w = w\<lparr>clock := clock w + max 0 d, trace := trace w @ [Sleep d]\<rparr>"

subsection \<open>The interfaces \<open>EC2API\<close>, \<open>IAMAPI\<close> and \<open>SSMAPI\<close>\<close>

definition ec2_RunInstances :: "RunInstancesInput \<Rightarrow> world \<Rightarrow> (error + RunInstancesOutput) \<times> world" where
  "ec2_RunInstances params w =
     (RunInstances_r w 0,
      issue (RunInstancesReq params) (w\<lparr>RunInstances_r := (\<lambda>n. RunInstances_r w (Suc n))\<rparr>))"

definition ec2_DescribeInstances :: "string list \<Rightarrow> world \<Rightarrow> (error + DescribeInstancesOutput) \<times> world" where
  "ec2_DescribeInstances ids w =
     (DescribeInstances_r w 0,
      issue (DescribeInstancesReq ids) (w\<lparr>DescribeInstances_r := (\<lambda>n. DescribeInstances_r w (Suc n))\<rparr>))"

definition ec2_TerminateInstances :: "string list \<Rightarrow> world \<Rightarrow> error option \<times> world" where
  "ec2_TerminateInstances ids w =
     (TerminateInstances_r w 0,
      issue (TerminateInstancesReq ids) (w\<lparr>TerminateInstances_r := (\<lambda>n. TerminateInstances_r w (Suc n))\<rparr>))"

definition iam_ListInstanceProfiles :: "world \<Rightarrow> (error + ListInstanceProfilesOutput) \<times> world" where
  "iam_ListInstanceProfiles w =
     (ListInstanceProfiles_r w 0,
      issue ListInstanceProfilesReq (w\<lparr>ListInstanceProfiles_r := (\<lambda>n. ListInstanceProfiles_r w (Suc n))\<rparr>))"

definition iam_CreateInstanceProfile :: "string \<Rightarrow> world \<Rightarrow> error option \<times> world" where
  "iam_CreateInstanceProfile name w =
     (CreateInstanceProfile_r w 0,
      issue (CreateInstanceProfileReq name) (w\<lparr>CreateInstanceProfile_r := (\<lambda>n. CreateInstanceProfile_r w (Suc n))\<rparr>))"

definition iam_AddRoleToInstanceProfile :: "string \<Rightarrow> string \<Rightarrow> world \<Rightarrow> error option \<times> world" where
  "iam_AddRoleToInstanceProfile profile role w =
     (AddRoleToInstanceProfile_r w 0,
      issue (AddRoleToInstanceProfileReq profile role)
        (w\<lparr>AddRoleToInstanceProfile_r := (\<lambda>n. AddRoleToInstanceProfile_r w (Suc n))\<rparr>))"

definition ssm_DescribeInstanceInformation ::
    "string \<Rightarrow> string list \<Rightarrow> world \<Rightarrow> (error + DescribeInstanceInformationOutput) \<times> world" where
  "ssm_DescribeInstanceInformation key vals w =
     (DescribeInstanceInformation_r w 0,
      issue (DescribeInstanceInformationReq key vals)
        (w\<lparr>DescribeInstanceInformation_r := (\<lambda>n. DescribeInstanceInformation_r w (Suc n))\<rparr>))"

definition ssm_SendCommand ::
    "string list \<Rightarrow> string \<Rightarrow> string list \<Rightarrow> world \<Rightarrow> (error + SendCommandOutput) \<times> world" where
  "ssm_SendCommand ids doc commands w =
     (SendCommand_r w 0,
      issue (SendCommandReq ids doc commands) (w\<lparr>SendCommand_r := (\<lambda>n. SendCommand_r w (Suc n))\<rparr>))"

definition ssm_GetCommandInvocation ::
    "string \<Rightarrow> string \<Rightarrow> world \<Rightarrow> (error + GetCommandInvocationOutput) \<times> world" where
  "ssm_GetCommandInvocation commandId instanceId w =
     (GetCommandInvocation_r w 0,
      issue (GetCommandInvocationReq commandId instanceId)
        (w\<lparr>GetCommandInvocation_r := (\<lambda>n. GetCommandInvocation_r w (Suc n))\<rparr>))"

section \<open>Waiting for an instance to run\<close>

text \<open>
  \<open>resp.Reservations[0].Instances[0].State.Name\<close>: \<open>None\<close> where Go panics (an empty
  slice, a nil \<open>State\<close>).
\<close>

definition described_state :: "DescribeInstancesOutput \<Rightarrow> string option" where
  "described_state resp =
     (case Reservations resp of
        [] \<Rightarrow> None
      | r # _ \<Rightarrow> (case Instances r of [] \<Rightarrow> None | i # _ \<Rightarrow> inst_State i))"

text \<open>
  The loop of \<open>WaitForInstanceRunning\<close>, with the loop variable \<open>instanceState\<close> as an
  argument. The source has no bound on it, so it is a partial function: \<open>None\<close> is a run
  that never returns.
\<close>

partial_function (option) WaitForInstanceRunning_loop ::
    "string \<Rightarrow> string \<Rightarrow> world \<Rightarrow> (error option outcome \<times> world) option" where
  "WaitForInstanceRunning_loop instanceId instanceState w =
     (if instanceState \<noteq> ''running'' then
        (case ec2_DescribeInstances [instanceId] w of
           (Inl err, w1) \<Rightarrow>
             Some (Return (Some (fmt_Errorf ''error describing instance %s: %v''
                                   [AStr instanceId, AErr err])), w1)
         | (Inr resp, w1) \<Rightarrow>
             (case described_state resp of
                None \<Rightarrow> Some (Panic, w1)
              | Some st \<Rightarrow>
                  let w2 = emit (Infof ''Instance state: %s'' [AStr st]) w1 in
                  WaitForInstanceRunning_loop instanceId st
                    (if st \<noteq> ''running'' then time_Sleep (5 * Second) w2 else w2)))
      else Some (Return None, emit (Infof ''Instance %s is now running.'' [AStr instanceId]) w))"

definition WaitForInstanceRunning :: "string \<Rightarrow> world \<Rightarrow> (error option outcome \<times> world) option" where
  "WaitForInstanceRunning instanceId w = WaitForInstanceRunning_loop instanceId '''' w"

section \<open>Instance profiles\<close>

datatype 'a search = Found 'a | Absent | NilDeref

text \<open>
  The inner loop of \<open>GetOrCreateInstanceProfile\<close>: is some role of the profile named
  \<open>iamRoleName\<close>? \<open>*role.RoleName\<close> of a nil name panics.
\<close>

fun has_role :: "Role list \<Rightarrow> string \<Rightarrow> unit search" where
  "has_role [] iamRoleName = Absent"
| "has_role (role # roles) iamRoleName =
     (case RoleName role of
        None \<Rightarrow> NilDeref
      | Some n \<Rightarrow> if n = iamRoleName then Found () else has_role roles iamRoleName)"

text \<open>The outer loop: the first profile, in the order listed, that has such a role.\<close>

fun find_profile :: "InstanceProfile list \<Rightarrow> string \<Rightarrow> InstanceProfile search" where
  "find_profile [] iamRoleName = Absent"
| "find_profile (profile # profiles) iamRoleName =
     (case has_role (Roles profile) iamRoleName of
        NilDeref \<Rightarrow> NilDeref
      | Found _ \<Rightarrow> Found profile
      | Absent \<Rightarrow> find_profile profiles iamRoleName)"

definition GetOrCreateInstanceProfile ::
    "string \<Rightarrow> world \<Rightarrow> (string \<times> error option) outcome \<times> world" where
  "GetOrCreateInstanceProfile iamRoleName w =
     (case iam_ListInstanceProfiles w of
        (Inl err, w1) \<Rightarrow>
          (Return ('''', Some (fmt_Errorf ''error listing instance profiles: %v'' [AErr err])), w1)
      | (Inr profiles, w1) \<Rightarrow>
          (case find_profile (InstanceProfiles profiles) iamRoleName of
             NilDeref \<Rightarrow> (Panic, w1)
           | Found profile \<Rightarrow>
               (let w2 = emit (Infof ''Instance profile for IAM role %s already exists.''
                                [AStr iamRoleName]) w1 in
                case InstanceProfileName profile of
                  None \<Rightarrow> (Panic, w2)
                | Some name \<Rightarrow> (Return (name, None), w2))
           | Absent \<Rightarrow>
               (case iam_CreateInstanceProfile iamRoleName w1 of
                  (Some err, w2) \<Rightarrow>
                    (Return ('''', Some (fmt_Errorf ''error creating instance profile: %v''
                                          [AErr err])), w2)
                | (None, w2) \<Rightarrow>
                    (let w3 = emit (Infof ''Created instance profile %s'' [AStr iamRoleName]) w2 in
                     case iam_AddRoleToInstanceProfile iamRoleName iamRoleName w3 of
                       (Some err, w4) \<Rightarrow>
                         (Return ('''', Some (fmt_Errorf
                                    ''error attaching role to instance profile: %v'' [AErr err])), w4)
                     | (None, w4) \<Rightarrow>
                         (Return (iamRoleName, None),
                          emit (Infof ''Attached role %s to instance profile %s''
                                  [AStr iamRoleName, AStr iamRoleName]) w4)))))"

section \<open>Remote commands\<close>

text \<open>
  The scan of one describe answer in \<open>IsSSMAgentRegistered\<close>: an entry with this
  instance id and ping status \<open>Online\<close>. \<open>*instanceInfo.InstanceId\<close> of a nil id
  panics.
\<close>

fun agent_online :: "InstanceInformation list \<Rightarrow> string \<Rightarrow> unit search" where
  "agent_online [] ec2InstanceId = Absent"
| "agent_online (instanceInfo # rest) ec2InstanceId =
     (case info_InstanceId instanceInfo of
        None \<Rightarrow> NilDeref
      | Some i \<Rightarrow>
          if i = ec2InstanceId \<and> PingStatus instanceInfo = ''Online'' then Found ()
          else agent_online rest ec2InstanceId)"

text \<open>The loop \<open>for time.Now().Before(endTime)\<close>.\<close>

partial_function (option) IsSSMAgentRegistered_loop ::
    "string \<Rightarrow> int \<Rightarrow> int \<Rightarrow> world \<Rightarrow> ((bool \<times> error option) outcome \<times> world) option" where
  "IsSSMAgentRegistered_loop ec2InstanceId endTime interval w =
     (if clock w < endTime then
        (case ssm_DescribeInstanceInformation ''InstanceIds'' [ec2InstanceId] w of
           (Inl err, w1) \<Rightarrow> Some (Return (False, Some err), w1)
         | (Inr resp, w1) \<Rightarrow>
             (case agent_online (InstanceInformationList resp) ec2InstanceId of
                NilDeref \<Rightarrow> Some (Panic, w1)
              | Found _ \<Rightarrow>
                  Some (Return (True, None),
                        emit (Infof ''SSM agent is registered and online for instance %s''
                                [AStr ec2InstanceId]) w1)
              | Absent \<Rightarrow>
                  IsSSMAgentRegistered_loop ec2InstanceId endTime interval
                    (time_Sleep (seconds interval)
                       (emit (Infof ''SSM agent is not registered or not online for instance %s. Waiting...''
                                [AStr ec2InstanceId]) w1))))
      else Some (Return (False, None),
                 emit (Infof ''Timeout reached. SSM agent is not registered for instance %s''
                         [AStr ec2InstanceId]) w))"

definition IsSSMAgentRegistered ::
    "string \<Rightarrow> int \<Rightarrow> int \<Rightarrow> world \<Rightarrow> ((bool \<times> error option) outcome \<times> world) option" where
  "IsSSMAgentRegistered ec2InstanceId timeout interval w =
     IsSSMAgentRegistered_loop ec2InstanceId (clock w + seconds timeout) interval w"

text \<open>
  What the program takes from its libraries and its environment: the action's inputs,
  the default-configuration loader, the JSON decoder of tag specifications, base64, and
  the SDK's \<open>CommandExecutedWaiter\<close> (\<open>WaitForOutput\<close>: command id, instance id and
  maximal wait).
\<close>

record env =
  GetInput :: "string \<Rightarrow> string"
  LoadDefaultConfig_r :: "error option"
  Unmarshal :: "string \<Rightarrow> error + TagSpecification list"
  EncodeToString :: "string \<Rightarrow> string"
  WaitForOutput :: "string \<Rightarrow> string \<Rightarrow> int \<Rightarrow> world \<Rightarrow> ((error + GetCommandInvocationOutput) \<times> world) option"

definition GetCommandInvocationDetails ::
    "env \<Rightarrow> string \<Rightarrow> string \<Rightarrow> int \<Rightarrow> world \<Rightarrow> ((error + GetCommandInvocationOutput) \<times> world) option" where
  "GetCommandInvocationDetails E ec2InstanceId commandId maxWaitTime w =
     WaitForOutput E commandId ec2InstanceId (seconds maxWaitTime) w"

text \<open>Sequencing: a call that exits, panics or never returns ends the caller too.\<close>

definition and_then ::
    "('a outcome \<times> world) option \<Rightarrow> ('a \<Rightarrow> world \<Rightarrow> ('b outcome \<times> world) option)
       \<Rightarrow> ('b outcome \<times> world) option" where
  "and_then m f =
     (case m of
        None \<Rightarrow> None
      | Some (Return a, w) \<Rightarrow> f a w
      | Some (Exit c, w) \<Rightarrow> Some (Exit c, w)
      | Some (Panic, w) \<Rightarrow> Some (Panic, w))"

definition ExecuteCommandOnEC2Instance ::
    "env \<Rightarrow> string \<Rightarrow> string \<Rightarrow> int \<Rightarrow> world \<Rightarrow> ((string \<times> error option) outcome \<times> world) option" where
  "ExecuteCommandOnEC2Instance E ec2InstanceId command commandMaxWaitTime w =
     and_then (IsSSMAgentRegistered ec2InstanceId 60 5 w) (\<lambda>(reg, err) w1.
       case err of
         Some e \<Rightarrow> Some (Return ('''', Some e), w1)
       | None \<Rightarrow>
           if \<not> reg then
             Some (Return ('''', Some (fmt_Errorf
                     ''SSM agent is not registered or online for instance %s'' [AStr ec2InstanceId])), w1)
           else
             (case ssm_SendCommand [ec2InstanceId] ''AWS-RunShellScript'' [command] w1 of
                (Inl e, w2) \<Rightarrow>
                  Some (Return ('''', Some (fmt_Errorf
                          (''error sending command '' @ [CHR 0x27] @ ''%s'' @ [CHR 0x27] @ '' to EC2 instance %s: %v'')
                          [AStr command, AStr ec2InstanceId, AErr e])), w2)
              | (Inr sendCommandResp, w2) \<Rightarrow>
                  (case Command sendCommandResp of
                     None \<Rightarrow> Some (Panic, w2)
                   | Some None \<Rightarrow> Some (Panic, w2)
                   | Some (Some commandId) \<Rightarrow>
                       (case GetCommandInvocationDetails E ec2InstanceId commandId commandMaxWaitTime w2 of
                          None \<Rightarrow> None
                        | Some (Inl e, w3) \<Rightarrow>
                            Some (Return ('''', Some (fmt_Errorf
                                    ''error getting command invocation details: %v'' [AErr e])), w3)
                        | Some (Inr details, w3) \<Rightarrow>
                            (let w4 = emit (Group ''Command invocation details'') w3;
                                 w5 = emit (Infof ''ResponseCode: %d'' [AInt (ResponseCode details)]) w4;
                                 w6 = emit (Infof ''Status: %s'' [AStr (Status details)]) w5
                             in case StandardErrorContent details of
                                  None \<Rightarrow> Some (Panic, w6)
                                | Some stderr \<Rightarrow>
                                    (let w7 = emit (Infof ''StdError: %s'' [AStr stderr]) w6
                                     in case StandardOutputContent details of
                                          None \<Rightarrow> Some (Panic, w7)
                                        | Some stdout \<Rightarrow>
                                            (let w8 = (if length stdout < 1000
                                                       then emit (Infof ''StdOutput: %s'' [AStr stdout]) w7
                                                       else emit (Infof ''(enable debug to see full output)'' []) w7)
                                             in Some (Return (commandId, None), emit EndGroup w8))))))))"

section \<open>Instance lifecycle\<close>

definition TerminateEC2Instance :: "string \<Rightarrow> world \<Rightarrow> error option \<times> world" where
  "TerminateEC2Instance ec2InstanceId w =
     (case ec2_TerminateInstances [ec2InstanceId] w of
        (Some err, w1) \<Rightarrow>
          (Some (fmt_Errorf ''error stopping EC2 instance %s: %v'' [AStr ec2InstanceId, AErr err]), w1)
      | (None, w1) \<Rightarrow>
          (None, emit (Infof ''Instance %s is stopping...'' [AStr ec2InstanceId]) w1))"

text \<open>
  \<open>action.Fatalf\<close> logs at error level and calls \<open>os.Exit(1)\<close>: the function does not
  go on after it.
\<close>

definition Fatalf :: "string \<Rightarrow> fmtarg list \<Rightarrow> world \<Rightarrow> ('a outcome \<times> world) option" where
  "Fatalf msg args w = Some (Exit 1, emit (Errorf msg args) w)"

definition CreateAndStartEC2Instance ::
    "env \<Rightarrow> string \<Rightarrow> string \<Rightarrow> string \<Rightarrow> string \<Rightarrow> string \<Rightarrow> string \<Rightarrow> string \<Rightarrow> world
       \<Rightarrow> ((string \<times> error option) outcome \<times> world) option" where
  "CreateAndStartEC2Instance E ec2AmiId subnetId securityGroupId iamRoleName instanceType userData
       tagSpecifications w =
     (let startParams =
        \<lparr>ImageId = ec2AmiId, InstanceType = instanceType, MaxCount = 1, MinCount = 1,
         Monitoring = False, SubnetId = subnetId, SecurityGroupIds = [securityGroupId],
         UserData = EncodeToString E userData, TagSpecifications = [], IamInstanceProfile = None\<rparr>
      in
      and_then
        (if tagSpecifications \<noteq> '''' then
           (case Unmarshal E tagSpecifications of
              Inl err \<Rightarrow> Fatalf ''Error parsing tag specifications: %v'' [AErr err] w
            | Inr tags \<Rightarrow> Some (Return (startParams\<lparr>TagSpecifications := tags\<rparr>), w))
         else Some (Return startParams, w))
        (\<lambda>startParams w.
      and_then
        (if iamRoleName \<noteq> '''' then
           (case GetOrCreateInstanceProfile iamRoleName w of
              (Panic, w1) \<Rightarrow> Some (Panic, w1)
            | (Exit c, w1) \<Rightarrow> Some (Exit c, w1)
            | (Return (instanceProfileName, Some err), w1) \<Rightarrow>
                Some (Return (Inl (fmt_Errorf
                  ''error creating or retrieving instance profile for IAM role name %s: %v''
                  [AStr iamRoleName, AErr err])), w1)
            | (Return (instanceProfileName, None), w1) \<Rightarrow>
                Some (Return (Inr (startParams\<lparr>IamInstanceProfile := Some instanceProfileName\<rparr>)), w1))
         else Some (Return (Inr startParams), w))
        (\<lambda>r w.
           case r of
             Inl err \<Rightarrow> Some (Return ('''', Some err), w)
           | Inr startParams \<Rightarrow>
               (case ec2_RunInstances startParams w of
                  (Inl err, w1) \<Rightarrow>
                    Some (Return ('''', Some (fmt_Errorf ''error starting EC2 instance: %v''
                                               [AErr err])), w1)
                | (Inr runResult, w1) \<Rightarrow>
                    (case run_Instances runResult of
                       [] \<Rightarrow> Some (Panic, w1)
                     | inst # _ \<Rightarrow>
                         (case inst_InstanceId inst of
                            None \<Rightarrow> Some (Panic, w1)
                          | Some instanceId \<Rightarrow>
                              and_then (WaitForInstanceRunning instanceId w1)
                                (\<lambda>err w2.
                                   case err of
                                     Some e \<Rightarrow>
                                       Some (Return ('''', Some (fmt_Errorf
                                               ''error waiting for instance to be running: %v''
                                               [AErr e])), w2)
                                   | None \<Rightarrow> Some (Return (instanceId, None), w2))))))))"

section \<open>Inputs and dispatch\<close>

text \<open>
  \<open>strconv.Atoi\<close> of the Go standard library: an optional sign, then one or more
  decimal digits, within the range of a 64-bit \<open>int\<close>.
\<close>

definition is_digit :: "char \<Rightarrow> bool" where
  "is_digit c = (c \<in> set ''0123456789'')"

fun digits_value :: "string \<Rightarrow> int \<Rightarrow> int" where
  "digits_value [] acc = acc"
| "digits_value (c # cs) acc = digits_value cs (acc * 10 + (of_char c - 48))"

definition Atoi :: "string \<Rightarrow> error + int" where
  "Atoi s =
     (let neg = (case s of c # _ \<Rightarrow> c = CHR ''-'' | [] \<Rightarrow> False);
          body = (case s of c # cs \<Rightarrow> if c = CHR ''+'' \<or> c = CHR ''-'' then cs else s | [] \<Rightarrow> s)
      in if body = [] \<or> \<not> list_all is_digit body
         then Inl (NumError ''Atoi'' s ''invalid syntax'')
         else (let n = (if neg then - digits_value body 0 else digits_value body 0)
               in if n < - (2 ^ 63) \<or> 2 ^ 63 \<le> n
                  then Inl (NumError ''Atoi'' s ''value out of range'')
                  else Inr n))"

definition getInputs :: "env \<Rightarrow> world \<Rightarrow> (error option outcome \<times> world) option" where
  "getInputs E w =
     (let mode = GetInput E ''mode'' in
      if mode = '''' then
        Some (Return (Some (fmt_Errorf (''Required input '' @ [CHR 0x27] @ ''mode'' @ [CHR 0x27] @ '' is missing.'') [])), w)
      else
      let ec2AmiId = GetInput E ''ec2-image-id'';
          subnetId = GetInput E ''subnet-id'';
          securityGroupId = GetInput E ''security-group-id'';
          iamRoleName = GetInput E ''iam-role-name'';
          instanceType = (let t = GetInput E ''ec2-instance-type'' in if t = '''' then ''t2.micro'' else t);
          userData = GetInput E ''user-data'';
          tagSpecifications = GetInput E ''tag-specifications'';
          ec2InstanceId = GetInput E ''ec2-instance-id'';
          command = GetInput E ''command''
      in
      case Atoi (GetInput E ''command-max-wait-secs'') of
        Inl err \<Rightarrow> Some (Return (Some err), w)
      | Inr n \<Rightarrow>
          (let w1 = (if n \<le> 5
                     then emit (Warningf ''command-max-wait-secs raised to minimum 6 seconds'' []) w
                     else w);
               commandMaxWaitTime = (if n \<le> 5 then 6 else n);
               w2 = emit LoadDefaultConfig w1
           in
           case LoadDefaultConfig_r E of
             Some err \<Rightarrow> Some (Return (Some err), w2)
           | None \<Rightarrow>
               if mode = ''start'' then
                 (if ec2AmiId = '''' \<or> subnetId = '''' \<or> securityGroupId = '''' then
                    Some (Return (Some (fmt_Errorf
                      ''Required parameters (ec2AmiId, subnetId, securityGroupId) are missing.'' [])), w2)
                  else
                    and_then
                      (CreateAndStartEC2Instance E ec2AmiId subnetId securityGroupId iamRoleName
                         instanceType userData tagSpecifications w2)
                      (\<lambda>(instanceId, err) w3.
                         case err of
                           Some e \<Rightarrow> Fatalf ''Error occurred: %v'' [AErr e] w3
                         | None \<Rightarrow>
                             Some (Return None,
                                   emit (SetOutput ''ec2-instance-id'' instanceId)
                                     (emit (Infof ''Started EC2 instance with ID: %s'' [AStr instanceId]) w3))))
               else if mode = ''command'' then
                 (if ec2InstanceId = '''' \<or> command = '''' then
                    Some (Return (Some (fmt_Errorf
                      ''Required parameters (ec2InstanceId, command) are missing.'' [])), w2)
                  else
                    and_then
                      (ExecuteCommandOnEC2Instance E ec2InstanceId command commandMaxWaitTime w2)
                      (\<lambda>(commandId, err) w3.
                         case err of
                           Some e \<Rightarrow> Some (Return (Some e), w3)
                         | None \<Rightarrow>
                             Some (Return None,
                                   emit (SetOutput ''command-id'' commandId)
                                     (emit (Infof
                                        (''Command '' @ [CHR 0x27] @ ''%s'' @ [CHR 0x27] @ '' sent to instance %s. Command ID: %s. Command wait time: %d secs'')
                                        [AStr command, AStr ec2InstanceId, AStr commandId,
                                         AInt commandMaxWaitTime]) w3))))
               else if mode = ''stop'' then
                 (if ec2InstanceId = '''' then
                    Some (Return (Some (fmt_Errorf ''Required parameter (ec2InstanceId) is missing.'' [])), w2)
                  else
                    (case TerminateEC2Instance ec2InstanceId w2 of
                       (Some e, w3) \<Rightarrow> Some (Return (Some e), w3)
                     | (None, w3) \<Rightarrow> Some (Return None, w3)))
               else
                 Some (Return (Some (fmt_Errorf
                   (''Unsupported mode: %s. Supported modes are '' @ [CHR 0x27] @ ''start'' @ [CHR 0x27] @ '', ''
                      @ [CHR 0x27] @ ''command'' @ [CHR 0x27] @ '', and '' @ [CHR 0x27] @ ''stop'' @ [CHR 0x27] @ ''.'')
                   [AStr mode])), w2)))"

section \<open>The command waiter, as the specification describes it\<close>

text \<open>
  Modelled from the spec: what a \<open>check\<close> of the wait primitive of section 4.1 reports
  (done with a value, not yet, or an error); the primitive is not under src/.
\<close>

datatype 'a check = Done 'a | NotYet | Failed error

text \<open>
  Modelled from the spec: the \<open>Timeout\<close> error of section 7, which the waiter raises and
  which is not under src/.
\<close>

definition Timeout :: error where
  "Timeout = ApiError ''Timeout''"

text \<open>
  Modelled from the spec: the wait primitive \<open>pollUntil\<close> of section 4.1, which is not
  under src/. \<^emph>\<open>Repeatedly invokes check every interval until it reports done, an error,
  or timeout elapses. On timeout with no error, returns a Timeout error.\<close>
\<close>

partial_function (option) pollUntil ::
    "(world \<Rightarrow> 'a check \<times> world) \<Rightarrow> int \<Rightarrow> int \<Rightarrow> world \<Rightarrow> ((error + 'a) \<times> world) option" where
  "pollUntil check interval deadline w =
     (if clock w < deadline then
        (case check w of
           (Failed err, w1) \<Rightarrow> Some (Inl err, w1)
         | (Done v, w1) \<Rightarrow> Some (Inr v, w1)
         | (NotYet, w1) \<Rightarrow> pollUntil check interval deadline (time_Sleep interval w1))
      else Some (Inl Timeout, w))"

text \<open>
  Modelled from the spec: the terminal statuses of a command invocation, which the
  SDK's waiter (not under src/) decides. Section 4.4: \<^emph>\<open>a terminal status
  (success/failed)\<close>.
\<close>

definition terminal :: "string \<Rightarrow> bool" where
  "terminal status = (status = ''Success'' \<or> status = ''Failed'')"

text \<open>
  Modelled from the spec: one poll of the SDK's waiter (not under src/): a
  \<open>GetCommandInvocation\<close> call, done when the status is terminal.
\<close>

definition invocation_check :: "string \<Rightarrow> string \<Rightarrow> world \<Rightarrow> GetCommandInvocationOutput check \<times> world" where
  "invocation_check commandId instanceId w =
     (case ssm_GetCommandInvocation commandId instanceId w of
        (Inl err, w1) \<Rightarrow> (Failed err, w1)
      | (Inr out, w1) \<Rightarrow> (if terminal (Status out) then Done out else NotYet, w1))"

text \<open>
  Modelled from the spec: the SDK's \<open>CommandExecutedWaiter.WaitForOutput\<close>, which is not
  under src/. Section 4.4: \<^emph>\<open>blocks on maxWait for the invocation to reach a terminal
  status (success/failed); fails with Timeout if the status is not resolved in time.\<close>
  The spec gives the waiter no polling interval: it is a parameter here.
\<close>

definition spec_WaitForOutput ::
    "int \<Rightarrow> string \<Rightarrow> string \<Rightarrow> int \<Rightarrow> world \<Rightarrow> ((error + GetCommandInvocationOutput) \<times> world) option" where
  "spec_WaitForOutput interval commandId instanceId maxWait w =
     pollUntil (invocation_check commandId instanceId) interval (clock w + maxWait) w"

section \<open>Worlds for concrete runs\<close>

text \<open>Nothing has happened yet, calls take no time, and every API refuses.\<close>

definition idle_world :: world where
  "idle_world =
     \<lparr>clock = 0, trace = [], latency = (\<lambda>n. 0),
      RunInstances_r = (\<lambda>n. Inl (ApiError ''unavailable'')),
      DescribeInstances_r = (\<lambda>n. Inl (ApiError ''unavailable'')),
      TerminateInstances_r = (\<lambda>n. Some (ApiError ''unavailable'')),
      ListInstanceProfiles_r = (\<lambda>n. Inl (ApiError ''unavailable'')),
      CreateInstanceProfile_r = (\<lambda>n. Some (ApiError ''unavailable'')),
      AddRoleToInstanceProfile_r = (\<lambda>n. Some (ApiError ''unavailable'')),
      DescribeInstanceInformation_r = (\<lambda>n. Inl (ApiError ''unavailable'')),
      SendCommand_r = (\<lambda>n. Inl (ApiError ''unavailable'')),
      GetCommandInvocation_r = (\<lambda>n. Inl (ApiError ''unavailable''))\<rparr>"

definition describing :: "string \<Rightarrow> DescribeInstancesOutput" where
  "describing st =
     \<lparr>Reservations = [\<lparr>Instances = [\<lparr>inst_InstanceId = Some ''i-1'', inst_State = Some st\<rparr>]\<rparr>]\<rparr>"

text \<open>An instance that is described as pending, then stopped, then running.\<close>

definition starting_world :: world where
  "starting_world =
     idle_world\<lparr>DescribeInstances_r :=
       (\<lambda>n. Inr (describing (if n = 0 then ''pending'' else if n = 1 then ''stopped'' else ''running'')))\<rparr>"

text \<open>An instance that is described as pending for ever.\<close>

definition pending_world :: world where
  "pending_world = idle_world\<lparr>DescribeInstances_r := (\<lambda>n. Inr (describing ''pending''))\<rparr>"

section \<open>WaitForInstanceRunning: the polls it makes\<close>

text \<open>The state that the \<open>n\<close>-th describe call from now will show, if it shows one.\<close>

definition observed :: "world \<Rightarrow> nat \<Rightarrow> string option" where
  "observed w n =
     (case DescribeInstances_r w n of Inl _ \<Rightarrow> None | Inr resp \<Rightarrow> described_state resp)"

text \<open>The world after one poll that showed the state \<open>st\<close>, not running.\<close>

definition after_poll :: "string \<Rightarrow> string \<Rightarrow> world \<Rightarrow> world" where
  "after_poll instanceId st w =
     time_Sleep (5 * Second)
       (emit (Infof ''Instance state: %s'' [AStr st]) (snd (ec2_DescribeInstances [instanceId] w)))"

lemma observed_after_poll: "observed (after_poll i st w) n = observed w (Suc n)"
  by (simp add: observed_def after_poll_def time_Sleep_def emit_def ec2_DescribeInstances_def issue_def)

lemma trace_after_poll:
  "trace (after_poll i st w) =
     trace w @ [Call (DescribeInstancesReq [i]), Infof ''Instance state: %s'' [AStr st], Sleep (5 * Second)]"
  by (simp add: after_poll_def time_Sleep_def emit_def ec2_DescribeInstances_def issue_def)

lemma DescribeInstances_r_after_poll:
  "DescribeInstances_r (after_poll i st w) = (\<lambda>n. DescribeInstances_r w (Suc n))"
  by (simp add: after_poll_def time_Sleep_def emit_def ec2_DescribeInstances_def issue_def)

lemma WaitForInstanceRunning_loop_pending:
  assumes "s0 \<noteq> ''running''" "observed w 0 = Some st" "st \<noteq> ''running''"
  shows "WaitForInstanceRunning_loop i s0 w = WaitForInstanceRunning_loop i st (after_poll i st w)"
  using assms
  apply (subst WaitForInstanceRunning_loop.simps)
  apply (auto simp: observed_def after_poll_def ec2_DescribeInstances_def split: sum.splits)
  done

lemma WaitForInstanceRunning_loop_running:
  assumes "s0 \<noteq> ''running''" "observed w 0 = Some ''running''"
  shows "WaitForInstanceRunning_loop i s0 w =
    Some (Return None, emit (Infof ''Instance %s is now running.'' [AStr i])
       (emit (Infof ''Instance state: %s'' [AStr ''running'']) (snd (ec2_DescribeInstances [i] w))))"
  using assms
  apply (subst WaitForInstanceRunning_loop.simps)
  apply (subst WaitForInstanceRunning_loop.simps)
  apply (auto simp: observed_def ec2_DescribeInstances_def split: sum.splits)
  done

lemma WaitForInstanceRunning_loop_polls:
  assumes "s0 \<noteq> ''running''"
      and "\<forall>n < length sts. observed w n = Some (sts ! n)"
      and "''running'' \<notin> set sts"
      and "observed w (length sts) = Some ''running''"
  shows "\<exists>w'. WaitForInstanceRunning_loop i s0 w = Some (Return None, w') \<and>
           trace w' = trace w
             @ concat (map (\<lambda>st. [Call (DescribeInstancesReq [i]),
                                     Infof ''Instance state: %s'' [AStr st],
                                     Sleep (5 * Second)]) sts)
             @ [Call (DescribeInstancesReq [i]),
                Infof ''Instance state: %s'' [AStr ''running''],
                Infof ''Instance %s is now running.'' [AStr i]] \<and>
           DescribeInstances_r w' = (\<lambda>n. DescribeInstances_r w (n + length sts + 1))"
  using assms
proof (induction sts arbitrary: s0 w)
  case Nil
  then show ?case
    by (simp add: WaitForInstanceRunning_loop_running emit_def ec2_DescribeInstances_def issue_def)
next
  case (Cons st sts)
  have st: "observed w 0 = Some st" "st \<noteq> ''running''"
    using Cons.prems(2)[rule_format, of 0] Cons.prems(3) by auto
  have step: "WaitForInstanceRunning_loop i s0 w = WaitForInstanceRunning_loop i st (after_poll i st w)"
    using Cons.prems(1) st by (rule WaitForInstanceRunning_loop_pending)
  have rest: "\<forall>n < length sts. observed (after_poll i st w) n = Some (sts ! n)"
    using Cons.prems(2) by (auto simp: observed_after_poll)
  have last: "observed (after_poll i st w) (length sts) = Some ''running''"
    using Cons.prems(4) by (simp add: observed_after_poll)
  from Cons.IH[OF st(2) rest _ last] Cons.prems(3)
  obtain w' where w': "WaitForInstanceRunning_loop i st (after_poll i st w) = Some (Return None, w')"
     "trace w' = trace (after_poll i st w)
             @ concat (map (\<lambda>st. [Call (DescribeInstancesReq [i]),
                                     Infof ''Instance state: %s'' [AStr st],
                                     Sleep (5 * Second)]) sts)
             @ [Call (DescribeInstancesReq [i]),
                Infof ''Instance state: %s'' [AStr ''running''],
                Infof ''Instance %s is now running.'' [AStr i]]"
     "DescribeInstances_r w' = (\<lambda>n. DescribeInstances_r (after_poll i st w) (n + length sts + 1))"
    by auto
  show ?case
    using step w' by (simp add: trace_after_poll DescribeInstances_r_after_poll)
qed

text \<open>
  A run of the loop that returns has met a poll that did not show a state other than
  running: an API failure, a malformed answer, or the state running.
\<close>

lemma WaitForInstanceRunning_loop_returns_only_if:
  assumes r: "WaitForInstanceRunning_loop i s0 w = Some y"
  shows "s0 = ''running'' \<or> (\<exists>n. \<forall>st. observed w n = Some st \<longrightarrow> st = ''running'')"
proof (rule WaitForInstanceRunning_loop.raw_induct
    [where P = "\<lambda>i s0 w y. s0 = ''running'' \<or> (\<exists>n. \<forall>st. observed w n = Some st \<longrightarrow> st = ''running'')", OF _ r])
  fix loop :: "string \<Rightarrow> string \<Rightarrow> world \<Rightarrow> (error option outcome \<times> world) option"
    and i s0 :: string and w :: world and y
  assume IH: "\<And>i s0 w y. loop i s0 w = Some y \<Longrightarrow>
     s0 = ''running'' \<or> (\<exists>n. \<forall>st. observed w n = Some st \<longrightarrow> st = ''running'')"
  assume body: "(if s0 \<noteq> ''running'' then
        (case ec2_DescribeInstances [i] w of
           (Inl err, w1) \<Rightarrow>
             Some (Return (Some (fmt_Errorf ''error describing instance %s: %v''
                                   [AStr i, AErr err])), w1)
         | (Inr resp, w1) \<Rightarrow>
             (case described_state resp of
                None \<Rightarrow> Some (Panic, w1)
              | Some st \<Rightarrow>
                  let w2 = emit (Infof ''Instance state: %s'' [AStr st]) w1 in
                  loop i st
                    (if st \<noteq> ''running'' then time_Sleep (5 * Second) w2 else w2)))
      else Some (Return None, emit (Infof ''Instance %s is now running.'' [AStr i]) w)) = Some y"
  show "s0 = ''running'' \<or> (\<exists>n. \<forall>st. observed w n = Some st \<longrightarrow> st = ''running'')"
  proof (cases "s0 \<noteq> ''running'' \<and> (\<exists>st. observed w 0 = Some st \<and> st \<noteq> ''running'')")
    case False
    then show ?thesis by blast
  next
    case True
    then obtain st where st: "s0 \<noteq> ''running''" "observed w 0 = Some st" "st \<noteq> ''running''"
      by auto
    with body have "loop i st (after_poll i st w) = Some y"
      by (auto simp: observed_def after_poll_def ec2_DescribeInstances_def split: sum.splits)
    from IH[OF this] st(3)
    obtain n where "\<forall>s. observed (after_poll i st w) n = Some s \<longrightarrow> s = ''running''" by auto
    then have "\<forall>s. observed w (Suc n) = Some s \<longrightarrow> s = ''running''"
      by (simp add: observed_after_poll)
    then show ?thesis by blast
  qed
qed

text \<open>A describe call that fails ends the loop with the describe error, wrapped.\<close>

lemma WaitForInstanceRunning_loop_describe_error:
  assumes "s0 \<noteq> ''running''"
      and "\<forall>n < length sts. observed w n = Some (sts ! n)"
      and "''running'' \<notin> set sts"
      and "DescribeInstances_r w (length sts) = Inl e"
  shows "\<exists>w'. WaitForInstanceRunning_loop i s0 w =
           Some (Return (Some (fmt_Errorf ''error describing instance %s: %v'' [AStr i, AErr e])), w')"
  using assms
proof (induction sts arbitrary: s0 w)
  case Nil
  then show ?case
    by (subst WaitForInstanceRunning_loop.simps) (simp add: ec2_DescribeInstances_def)
next
  case (Cons st sts)
  have st: "observed w 0 = Some st" "st \<noteq> ''running''"
    using Cons.prems(2)[rule_format, of 0] Cons.prems(3) by auto
  have step: "WaitForInstanceRunning_loop i s0 w = WaitForInstanceRunning_loop i st (after_poll i st w)"
    using Cons.prems(1) st by (rule WaitForInstanceRunning_loop_pending)
  have rest: "\<forall>n < length sts. observed (after_poll i st w) n = Some (sts ! n)"
    using Cons.prems(2) by (auto simp: observed_after_poll)
  have last: "DescribeInstances_r (after_poll i st w) (length sts) = Inl e"
    using Cons.prems(4) by (simp add: DescribeInstances_r_after_poll)
  from Cons.IH[OF st(2) rest _ last] Cons.prems(3) show ?case
    using step by simp
qed

lemma WaitForInstanceRunning_describe_error:
  assumes "\<forall>n < length sts. observed w n = Some (sts ! n)"
      and "''running'' \<notin> set sts"
      and "DescribeInstances_r w (length sts) = Inl e"
  shows "\<exists>w'. WaitForInstanceRunning i w =
           Some (Return (Some (fmt_Errorf ''error describing instance %s: %v'' [AStr i, AErr e])), w')"
  unfolding WaitForInstanceRunning_def
  using assms by (intro WaitForInstanceRunning_loop_describe_error) simp_all

text \<open>
  C7. For every sequence \<open>sts\<close> of described states other than running, followed by a
  described state running, \<open>WaitForInstanceRunning\<close> returns without error; after
  each of the polls that showed a state of \<open>sts\<close> it sleeps 5 seconds, and after the poll
  that shows running it logs and returns: one describe call per state and no call or
  sleep after the observation of running.
\<close>

theorem WaitForInstanceRunning_polls:
  assumes "\<forall>n < length sts. observed w n = Some (sts ! n)"
      and "''running'' \<notin> set sts"
      and "observed w (length sts) = Some ''running''"
  shows "\<exists>w'. WaitForInstanceRunning i w = Some (Return None, w') \<and>
           trace w' = trace w
             @ concat (map (\<lambda>st. [Call (DescribeInstancesReq [i]),
                                     Infof ''Instance state: %s'' [AStr st],
                                     Sleep (5 * Second)]) sts)
             @ [Call (DescribeInstancesReq [i]),
                Infof ''Instance state: %s'' [AStr ''running''],
                Infof ''Instance %s is now running.'' [AStr i]] \<and>
           DescribeInstances_r w' = (\<lambda>n. DescribeInstances_r w (n + length sts + 1))"
  unfolding WaitForInstanceRunning_def
  using assms by (intro WaitForInstanceRunning_loop_polls) simp_all

theorem WaitForInstanceRunning_polls_witness:
  "\<exists>w'. WaitForInstanceRunning ''i-1'' starting_world = Some (Return None, w') \<and>
     trace w' =
       [Call (DescribeInstancesReq [''i-1'']), Infof ''Instance state: %s'' [AStr ''pending''],
        Sleep 5000000000,
        Call (DescribeInstancesReq [''i-1'']), Infof ''Instance state: %s'' [AStr ''stopped''],
        Sleep 5000000000,
        Call (DescribeInstancesReq [''i-1'']), Infof ''Instance state: %s'' [AStr ''running''],
        Infof ''Instance %s is now running.'' [AStr ''i-1'']]"
proof -
  have 1: "\<forall>n < length [''pending'', ''stopped'']. observed starting_world n = Some ([''pending'', ''stopped''] ! n)"
    by (simp add: observed_def starting_world_def idle_world_def describing_def described_state_def
        less_Suc_eq)
  have 2: "''running'' \<notin> set [''pending'', ''stopped'']"
    by simp
  have 3: "observed starting_world (length [''pending'', ''stopped'']) = Some ''running''"
    by (simp add: observed_def starting_world_def idle_world_def describing_def described_state_def)
  have 4: "trace starting_world = []"
    by (simp add: starting_world_def idle_world_def)
  show ?thesis
    using WaitForInstanceRunning_polls[OF 1 2 3, of "''i-1''"] by (auto simp: 4 Second_def)
qed

text \<open>
  C1. The source has no deadline in \<open>WaitForInstanceRunning\<close>: while every describe call
  succeeds and shows a state other than running, the function never returns, so it
  cannot fail with a timeout error.
\<close>

theorem WaitForInstanceRunning_never_times_out:
  assumes "\<forall>n. \<exists>st. observed w n = Some st \<and> st \<noteq> ''running''"
  shows "WaitForInstanceRunning i w = None"
proof (cases "WaitForInstanceRunning i w")
  case None
  then show ?thesis .
next
  case (Some y)
  then have "WaitForInstanceRunning_loop i '''' w = Some y"
    by (simp add: WaitForInstanceRunning_def)
  from WaitForInstanceRunning_loop_returns_only_if[OF this]
  obtain n where "\<forall>st. observed w n = Some st \<longrightarrow> st = ''running''"
    by auto
  with assms show ?thesis by blast
qed

theorem WaitForInstanceRunning_never_times_out_witness:
  "WaitForInstanceRunning ''i-1'' pending_world = None"
proof -
  have "\<forall>n. \<exists>st. observed pending_world n = Some st \<and> st \<noteq> ''running''"
    by (simp add: observed_def pending_world_def idle_world_def describing_def described_state_def)
  then show ?thesis
    by (rule WaitForInstanceRunning_never_times_out)
qed

section \<open>IsSSMAgentRegistered: the registration window\<close>

text \<open>The window of the only call site: 60 seconds, polled every 5 seconds; nothing wraps.\<close>

lemma seconds_60: "seconds 60 = 60000000000"
  by (simp add: seconds_def Second_def)

lemma seconds_5: "seconds 5 = 5000000000"
  by (simp add: seconds_def Second_def)

text \<open>
  What the \<open>n\<close>-th describe call from now will answer about the instance \<open>i\<close>: an API
  error, or the result of scanning the entries of the answer.
\<close>

definition registration_answer :: "string \<Rightarrow> world \<Rightarrow> nat \<Rightarrow> error + unit search" where
  "registration_answer i w n =
     (case DescribeInstanceInformation_r w n of
        Inl e \<Rightarrow> Inl e
      | Inr resp \<Rightarrow> Inr (agent_online (InstanceInformationList resp) i))"

text \<open>One poll of the window that did not find the agent online: call, log line, sleep.\<close>

definition waiting_events :: "string \<Rightarrow> int \<Rightarrow> event list" where
  "waiting_events i interval =
     [Call (DescribeInstanceInformationReq ''InstanceIds'' [i]),
      Infof ''SSM agent is not registered or not online for instance %s. Waiting...'' [AStr i],
      Sleep (seconds interval)]"

definition after_quiet_poll :: "string \<Rightarrow> int \<Rightarrow> world \<Rightarrow> world" where
  "after_quiet_poll i interval w =
     time_Sleep (seconds interval)
       (emit (Infof ''SSM agent is not registered or not online for instance %s. Waiting...'' [AStr i])
          (snd (ssm_DescribeInstanceInformation ''InstanceIds'' [i] w)))"

lemma after_quiet_poll_simps:
  "registration_answer j (after_quiet_poll i iv w) n = registration_answer j w (Suc n)"
  "clock (after_quiet_poll i iv w) = clock w + int (latency w 0) + max 0 (seconds iv)"
  "latency (after_quiet_poll i iv w) n = latency w (Suc n)"
  "trace (after_quiet_poll i iv w) = trace w @ waiting_events i iv"
  "DescribeInstanceInformation_r (after_quiet_poll i iv w) = (\<lambda>n. DescribeInstanceInformation_r w (Suc n))"
  by (simp_all add: registration_answer_def after_quiet_poll_def waiting_events_def time_Sleep_def
        emit_def ssm_DescribeInstanceInformation_def issue_def)

lemma IsSSMAgentRegistered_loop_quiet:
  assumes "clock w < endT" "registration_answer i w 0 = Inr Absent"
  shows "IsSSMAgentRegistered_loop i endT iv w = IsSSMAgentRegistered_loop i endT iv (after_quiet_poll i iv w)"
  using assms
  apply (subst IsSSMAgentRegistered_loop.simps)
  apply (auto simp: registration_answer_def after_quiet_poll_def ssm_DescribeInstanceInformation_def
      split: sum.splits)
  done

lemma IsSSMAgentRegistered_loop_online:
  assumes "clock w < endT" "registration_answer i w 0 = Inr (Found ())"
  shows "IsSSMAgentRegistered_loop i endT iv w =
     Some (Return (True, None),
           emit (Infof ''SSM agent is registered and online for instance %s'' [AStr i])
             (snd (ssm_DescribeInstanceInformation ''InstanceIds'' [i] w)))"
  using assms
  apply (subst IsSSMAgentRegistered_loop.simps)
  apply (auto simp: registration_answer_def ssm_DescribeInstanceInformation_def
      split: sum.splits)
  done

lemma IsSSMAgentRegistered_loop_timeout:
  assumes "\<not> clock w < endT"
  shows "IsSSMAgentRegistered_loop i endT iv w =
     Some (Return (False, None),
           emit (Infof ''Timeout reached. SSM agent is not registered for instance %s'' [AStr i]) w)"
  using assms
  apply (subst IsSSMAgentRegistered_loop.simps)
  apply simp
  done

lemma IsSSMAgentRegistered_loop_never_online:
  assumes "\<forall>n. registration_answer i w n = Inr Absent" and "0 < seconds iv"
  shows "\<exists>w'. IsSSMAgentRegistered_loop i endT iv w = Some (Return (False, None), w') \<and>
           endT \<le> clock w' \<and>
           (\<exists>k. trace w' = trace w @ concat (replicate k (waiting_events i iv))
                   @ [Infof ''Timeout reached. SSM agent is not registered for instance %s'' [AStr i]])"
  using assms
proof (induction "nat (endT - clock w)" arbitrary: w rule: less_induct)
  case less
  show ?case
  proof (cases "clock w < endT")
    case False
    then show ?thesis
      by (auto simp: IsSSMAgentRegistered_loop_timeout emit_def intro: exI[of _ 0])
  next
    case True
    let ?w1 = "after_quiet_poll i iv w"
    have step: "IsSSMAgentRegistered_loop i endT iv w = IsSSMAgentRegistered_loop i endT iv ?w1"
      using True less.prems(1) by (simp add: IsSSMAgentRegistered_loop_quiet)
    have "nat (endT - clock ?w1) < nat (endT - clock w)"
      using True less.prems(2) by (simp add: after_quiet_poll_simps)
    moreover have "\<forall>n. registration_answer i ?w1 n = Inr Absent"
      using less.prems(1) by (simp add: after_quiet_poll_simps)
    ultimately obtain w' k where
      "IsSSMAgentRegistered_loop i endT iv ?w1 = Some (Return (False, None), w')"
      "endT \<le> clock w'"
      "trace w' = trace ?w1 @ concat (replicate k (waiting_events i iv))
                   @ [Infof ''Timeout reached. SSM agent is not registered for instance %s'' [AStr i]]"
      using less.hyps[of ?w1] less.prems(2) by blast
    then show ?thesis
      using step by (auto simp: after_quiet_poll_simps intro!: exI[of _ "Suc k"])
  qed
qed


text \<open>
  The runs of the loop that return: \<open>k\<close> polls that did not find the agent online,
  and then the window is over, or the agent is online, or the describe call fails, or an
  entry has no instance id.
\<close>

definition registration_run ::
    "string \<Rightarrow> int \<Rightarrow> int \<Rightarrow> world \<Rightarrow> nat \<Rightarrow> (bool \<times> error option) outcome \<Rightarrow> world \<Rightarrow> bool" where
  "registration_run i endT iv w k r w' =
     ((\<forall>j<k. registration_answer i w j = Inr Absent) \<and>
      (r = Return (False, None) \<and> endT \<le> clock w' \<and>
         trace w' = trace w @ concat (replicate k (waiting_events i iv))
           @ [Infof ''Timeout reached. SSM agent is not registered for instance %s'' [AStr i]]
       \<or> r = Return (True, None) \<and> registration_answer i w k = Inr (Found ()) \<and>
         trace w' = trace w @ concat (replicate k (waiting_events i iv))
           @ [Call (DescribeInstanceInformationReq ''InstanceIds'' [i]),
              Infof ''SSM agent is registered and online for instance %s'' [AStr i]]
       \<or> (\<exists>e. r = Return (False, Some e) \<and> registration_answer i w k = Inl e) \<and>
         trace w' = trace w @ concat (replicate k (waiting_events i iv))
           @ [Call (DescribeInstanceInformationReq ''InstanceIds'' [i])]
       \<or> r = Panic \<and> registration_answer i w k = Inr NilDeref \<and>
         trace w' = trace w @ concat (replicate k (waiting_events i iv))
           @ [Call (DescribeInstanceInformationReq ''InstanceIds'' [i])]))"

lemma registration_run_Suc:
  assumes "registration_answer i w 0 = Inr Absent"
      and "registration_run i endT iv (after_quiet_poll i iv w) k r w'"
  shows "registration_run i endT iv w (Suc k) r w'"
proof -
  have "\<forall>j<Suc k. registration_answer i w j = Inr Absent"
  proof (intro allI impI)
    fix j assume "j < Suc k"
    show "registration_answer i w j = Inr Absent"
    proof (cases j)
      case 0 with assms(1) show ?thesis by simp
    next
      case (Suc j')
      with \<open>j < Suc k\<close> assms(2) show ?thesis
        by (auto simp: registration_run_def after_quiet_poll_simps)
    qed
  qed
  with assms(2) show ?thesis
    by (auto simp: registration_run_def after_quiet_poll_simps)
qed

lemma IsSSMAgentRegistered_loop_result:
  assumes r: "IsSSMAgentRegistered_loop i endT iv w = Some y"
  shows "\<exists>k. registration_run i endT iv w k (fst y) (snd y)"
proof (rule IsSSMAgentRegistered_loop.raw_induct
    [where P = "\<lambda>i endT iv w y. \<exists>k. registration_run i endT iv w k (fst y) (snd y)", OF _ r])
  fix loop :: "string \<Rightarrow> int \<Rightarrow> int \<Rightarrow> world \<Rightarrow> ((bool \<times> error option) outcome \<times> world) option"
    and i :: string and endT iv :: int and w :: world and y
  assume IH: "\<And>i endT iv w y. loop i endT iv w = Some y \<Longrightarrow>
      \<exists>k. registration_run i endT iv w k (fst y) (snd y)"
  assume body: "(if clock w < endT then
        (case ssm_DescribeInstanceInformation ''InstanceIds'' [i] w of
           (Inl err, w1) \<Rightarrow> Some (Return (False, Some err), w1)
         | (Inr resp, w1) \<Rightarrow>
             (case agent_online (InstanceInformationList resp) i of
                NilDeref \<Rightarrow> Some (Panic, w1)
              | Found _ \<Rightarrow>
                  Some (Return (True, None),
                        emit (Infof ''SSM agent is registered and online for instance %s''
                                [AStr i]) w1)
              | Absent \<Rightarrow>
                  loop i endT iv
                    (time_Sleep (seconds iv)
                       (emit (Infof ''SSM agent is not registered or not online for instance %s. Waiting...''
                                [AStr i]) w1))))
      else Some (Return (False, None),
                 emit (Infof ''Timeout reached. SSM agent is not registered for instance %s''
                         [AStr i]) w)) = Some y"
  show "\<exists>k. registration_run i endT iv w k (fst y) (snd y)"
  proof (cases "clock w < endT")
    case False
    with body have "registration_run i endT iv w 0 (fst y) (snd y)"
      by (auto simp: registration_run_def emit_def)
    then show ?thesis ..
  next
    case True
    show ?thesis
    proof (cases "registration_answer i w 0")
      case (Inl e)
      with body True have "registration_run i endT iv w 0 (fst y) (snd y)"
        by (auto simp: registration_run_def registration_answer_def
            ssm_DescribeInstanceInformation_def issue_def split: sum.splits)
      then show ?thesis ..
    next
      case (Inr s)
      show ?thesis
      proof (cases s)
        case (Found u)
        with Inr body True have "registration_run i endT iv w 0 (fst y) (snd y)"
          by (auto simp: registration_run_def registration_answer_def emit_def
              ssm_DescribeInstanceInformation_def issue_def split: sum.splits)
        then show ?thesis ..
      next
        case NilDeref
        with Inr body True have "registration_run i endT iv w 0 (fst y) (snd y)"
          by (auto simp: registration_run_def registration_answer_def emit_def
              ssm_DescribeInstanceInformation_def issue_def split: sum.splits)
        then show ?thesis ..
      next
        case Absent
        with Inr body True have "loop i endT iv (after_quiet_poll i iv w) = Some y"
          by (auto simp: registration_answer_def after_quiet_poll_def
              ssm_DescribeInstanceInformation_def split: sum.splits)
        from IH[OF this] obtain k where
          "registration_run i endT iv (after_quiet_poll i iv w) k (fst y) (snd y)" ..
        with Inr Absent have "registration_run i endT iv w (Suc k) (fst y) (snd y)"
          by (simp add: registration_run_Suc)
        then show ?thesis ..
      qed
    qed
  qed
qed

text \<open>Worlds for concrete runs: the agent never registers, registers at the third poll, or the second describe call fails.\<close>

definition quiet_world :: world where
  "quiet_world = idle_world\<lparr>DescribeInstanceInformation_r := (\<lambda>n. Inr \<lparr>InstanceInformationList = []\<rparr>)\<rparr>"

definition online_info :: "string \<Rightarrow> DescribeInstanceInformationOutput" where
  "online_info i = \<lparr>InstanceInformationList = [\<lparr>info_InstanceId = Some i, PingStatus = ''Online''\<rparr>]\<rparr>"




lemma quiet_world_never_online: "registration_answer i quiet_world n = Inr Absent"
  by (simp add: registration_answer_def quiet_world_def idle_world_def)


section \<open>ExecuteCommandOnEC2Instance: no dispatch before registration\<close>

text \<open>The \<open>SendCommand\<close> requests of a trace.\<close>

fun is_dispatch :: "event \<Rightarrow> bool" where
  "is_dispatch (Call (SendCommandReq ids doc commands)) = True"
| "is_dispatch e = False"

definition dispatches :: "event list \<Rightarrow> event list" where
  "dispatches tr = filter is_dispatch tr"

lemma dispatches_waiting: "dispatches (concat (replicate k (waiting_events i iv))) = []"
  by (induction k) (simp_all add: dispatches_def waiting_events_def)

lemma dispatches_append: "dispatches (xs @ ys) = dispatches xs @ dispatches ys"
  by (simp add: dispatches_def)

lemma registration_run_no_dispatch:
  assumes "registration_run i endT iv w k r w'"
  shows "dispatches (trace w') = dispatches (trace w)"
proof -
  from assms obtain evs where "trace w' = trace w @ concat (replicate k (waiting_events i iv)) @ evs"
    and "dispatches evs = []"
    by (auto simp: registration_run_def dispatches_def)
  then show ?thesis
    by (simp add: dispatches_append dispatches_waiting)
qed

lemma IsSSMAgentRegistered_no_dispatch:
  assumes "IsSSMAgentRegistered i t iv w = Some (r, w')"
  shows "dispatches (trace w') = dispatches (trace w)"
  using IsSSMAgentRegistered_loop_result[of i "clock w + seconds t" iv w "(r, w')"] assms
  by (auto simp: IsSSMAgentRegistered_def dest: registration_run_no_dispatch)

lemma IsSSMAgentRegistered_True:
  assumes "IsSSMAgentRegistered i t iv w = Some (Return (True, e), w')"
  shows "\<exists>n. registration_answer i w n = Inr (Found ())"
  using IsSSMAgentRegistered_loop_result[of i "clock w + seconds t" iv w "(Return (True, e), w')"] assms
  by (auto simp: IsSSMAgentRegistered_def registration_run_def)

text \<open>
  C3. \<open>ExecuteCommandOnEC2Instance\<close>, for every instance id and command text:
  \<^item> when its registration check (60 seconds, every 5 seconds) ends with false, it
    fails with the error "SSM agent is not registered or online for instance ..." and
    has issued no \<open>SendCommand\<close>;
  \<^item> when no describe answer ever shows the agent online, that check does end so, and
    the call fails with that error, nothing dispatched;
  \<^item> however the call ends, if no describe answer shows the agent online then no
    \<open>SendCommand\<close> was issued and the call did not succeed.
\<close>

theorem ExecuteCommandOnEC2Instance_needs_agent:
  "(IsSSMAgentRegistered i 60 5 w = Some (Return (False, None), w1) \<longrightarrow>
      ExecuteCommandOnEC2Instance E i cmd m w =
        Some (Return ('''', Some (fmt_Errorf ''SSM agent is not registered or online for instance %s''
                                    [AStr i])), w1) \<and>
      dispatches (trace w1) = dispatches (trace w)) \<and>
   ((\<forall>n. registration_answer i w n = Inr Absent) \<longrightarrow>
      (\<exists>w'. ExecuteCommandOnEC2Instance E i cmd m w =
        Some (Return ('''', Some (fmt_Errorf ''SSM agent is not registered or online for instance %s''
                                    [AStr i])), w') \<and>
        dispatches (trace w') = dispatches (trace w))) \<and>
   ((\<forall>n. registration_answer i w n \<noteq> Inr (Found ())) \<and>
    ExecuteCommandOnEC2Instance E i cmd m w = Some (r, w') \<longrightarrow>
      dispatches (trace w') = dispatches (trace w) \<and> (\<forall>c. r \<noteq> Return (c, None)))"
proof (intro conjI impI)
  assume f: "IsSSMAgentRegistered i 60 5 w = Some (Return (False, None), w1)"
  then show "ExecuteCommandOnEC2Instance E i cmd m w =
        Some (Return ('''', Some (fmt_Errorf ''SSM agent is not registered or online for instance %s''
                                    [AStr i])), w1)"
    by (simp add: ExecuteCommandOnEC2Instance_def and_then_def)
  from f show "dispatches (trace w1) = dispatches (trace w)"
    by (rule IsSSMAgentRegistered_no_dispatch)
next
  assume "\<forall>n. registration_answer i w n = Inr Absent"
  then obtain w1 where f: "IsSSMAgentRegistered i 60 5 w = Some (Return (False, None), w1)"
    using IsSSMAgentRegistered_loop_never_online[of i w 5 "clock w + seconds 60"]
    by (auto simp: IsSSMAgentRegistered_def seconds_5)
  then have "ExecuteCommandOnEC2Instance E i cmd m w =
        Some (Return ('''', Some (fmt_Errorf ''SSM agent is not registered or online for instance %s''
                                    [AStr i])), w1)"
    by (simp add: ExecuteCommandOnEC2Instance_def and_then_def)
  moreover from f have "dispatches (trace w1) = dispatches (trace w)"
    by (rule IsSSMAgentRegistered_no_dispatch)
  ultimately show "\<exists>w'. ExecuteCommandOnEC2Instance E i cmd m w =
        Some (Return ('''', Some (fmt_Errorf ''SSM agent is not registered or online for instance %s''
                                    [AStr i])), w') \<and>
        dispatches (trace w') = dispatches (trace w)"
    by blast
next
  assume a: "(\<forall>n. registration_answer i w n \<noteq> Inr (Found ())) \<and>
    ExecuteCommandOnEC2Instance E i cmd m w = Some (r, w')"
  then obtain q w1 where q: "IsSSMAgentRegistered i 60 5 w = Some (q, w1)"
    by (cases "IsSSMAgentRegistered i 60 5 w") (auto simp: ExecuteCommandOnEC2Instance_def and_then_def)
  have notrue: "\<And>e. q \<noteq> Return (True, e)"
    using IsSSMAgentRegistered_True q a by blast
  have "w' = w1 \<and> (\<forall>c. r \<noteq> Return (c, None))"
  proof (cases q)
    case (Return p)
    obtain b e where p: "p = (b, e)" by (cases p)
    with notrue Return have "\<not> b" by (cases b) auto
    with a q Return p show ?thesis
      by (auto simp: ExecuteCommandOnEC2Instance_def and_then_def split: option.splits)
  next
    case (Exit c)
    with a q show ?thesis
      by (auto simp: ExecuteCommandOnEC2Instance_def and_then_def)
  next
    case Panic
    with a q show ?thesis
      by (auto simp: ExecuteCommandOnEC2Instance_def and_then_def)
  qed
  then show "dispatches (trace w') = dispatches (trace w)" and "\<forall>c. r \<noteq> Return (c, None)"
    using IsSSMAgentRegistered_no_dispatch[OF q] by auto
qed

text \<open>An environment with no inputs set, whose waiter and decoder refuse.\<close>

definition plain_env :: env where
  "plain_env =
     \<lparr>GetInput = (\<lambda>name. ''''), LoadDefaultConfig_r = None,
      Unmarshal = (\<lambda>s. Inl (ApiError ''invalid character'')),
      EncodeToString = (\<lambda>s. s),
      WaitForOutput = (\<lambda>commandId instanceId maxWait w. Some (Inl (ApiError ''unavailable''), w))\<rparr>"

theorem ExecuteCommandOnEC2Instance_needs_agent_witness:
  "\<exists>w'. ExecuteCommandOnEC2Instance plain_env ''i-1'' ''echo hi'' 60 quiet_world =
        Some (Return ('''', Some (fmt_Errorf ''SSM agent is not registered or online for instance %s''
                                    [AStr ''i-1''])), w') \<and>
        dispatches (trace w') = []"
proof -
  have q: "\<forall>n. registration_answer ''i-1'' quiet_world n = Inr Absent"
    by (simp add: quiet_world_never_online)
  show ?thesis
    using ExecuteCommandOnEC2Instance_needs_agent[where i="''i-1''" and w=quiet_world
        and E=plain_env and cmd="''echo hi''" and m=60, THEN conjunct2, THEN conjunct1, THEN mp, OF q]
    by (simp add: quiet_world_def idle_world_def dispatches_def)
qed

section \<open>GetOrCreateInstanceProfile: look up, else create\<close>

text \<open>
  A profile carries the role when one of its roles has exactly this name; its roles are
  named when none of them has a nil name.
\<close>

definition carries :: "InstanceProfile \<Rightarrow> string \<Rightarrow> bool" where
  "carries p role = (Some role \<in> RoleName ` set (Roles p))"

definition roles_named :: "InstanceProfile \<Rightarrow> bool" where
  "roles_named p = (None \<notin> RoleName ` set (Roles p))"

lemma has_role_named:
  "None \<notin> RoleName ` set rs \<Longrightarrow>
     has_role rs role = (if Some role \<in> RoleName ` set rs then Found () else Absent)"
  by (induction rs) (auto split: option.splits)

lemma find_profile_first:
  assumes "\<forall>q \<in> set pre. roles_named q \<and> \<not> carries q role"
      and "roles_named p" "carries p role"
  shows "find_profile (pre @ p # post) role = Found p"
  using assms
  by (induction pre) (simp_all add: has_role_named roles_named_def carries_def)

lemma find_profile_none:
  assumes "\<forall>q \<in> set ps. roles_named q \<and> \<not> carries q role"
  shows "find_profile ps role = Absent"
  using assms
  by (induction ps) (simp_all add: has_role_named roles_named_def carries_def)

lemma GetOrCreateInstanceProfile_found:
  assumes "ListInstanceProfiles_r w 0 = Inr out"
      and "find_profile (InstanceProfiles out) role = Found p"
      and "InstanceProfileName p = Some name"
  shows "fst (GetOrCreateInstanceProfile role w) = Return (name, None)"
    and "trace (snd (GetOrCreateInstanceProfile role w)) =
           trace w @ [Call ListInstanceProfilesReq,
                      Infof ''Instance profile for IAM role %s already exists.'' [AStr role]]"
  using assms
  by (simp_all add: GetOrCreateInstanceProfile_def iam_ListInstanceProfiles_def issue_def emit_def)

lemma GetOrCreateInstanceProfile_created:
  assumes "ListInstanceProfiles_r w 0 = Inr out"
      and "find_profile (InstanceProfiles out) role = Absent"
      and "CreateInstanceProfile_r w 0 = None"
      and "AddRoleToInstanceProfile_r w 0 = None"
  shows "fst (GetOrCreateInstanceProfile role w) = Return (role, None)"
    and "trace (snd (GetOrCreateInstanceProfile role w)) =
           trace w @ [Call ListInstanceProfilesReq,
                      Call (CreateInstanceProfileReq role),
                      Infof ''Created instance profile %s'' [AStr role],
                      Call (AddRoleToInstanceProfileReq role role),
                      Infof ''Attached role %s to instance profile %s'' [AStr role, AStr role]]"
  using assms
  by (simp_all add: GetOrCreateInstanceProfile_def iam_ListInstanceProfiles_def
      iam_CreateInstanceProfile_def iam_AddRoleToInstanceProfile_def issue_def emit_def)

lemma GetOrCreateInstanceProfile_lists_once:
  "ListInstanceProfiles_r (snd (GetOrCreateInstanceProfile role w)) = (\<lambda>n. ListInstanceProfiles_r w (Suc n))"
  by (simp add: GetOrCreateInstanceProfile_def iam_ListInstanceProfiles_def
      iam_CreateInstanceProfile_def iam_AddRoleToInstanceProfile_def issue_def emit_def Let_def
      split: sum.splits search.splits option.splits)

text \<open>
  C6. \<open>GetOrCreateInstanceProfile\<close>, for every role name, lists the instance profiles
  and
  \<^item> if a listed profile carries the role, returns the name of the first such profile
    and issues no create and no attach call;
  \<^item> if no listed profile carries it, creates a profile named as the role, attaches
    the role of that name to it and returns the role name (the two calls succeeding);
  \<^item> called a second time, when the second list answer reports a profile of the name
    the first call returned as the one carrying the role, returns that same name and
    issues only the list call.
\<close>

theorem GetOrCreateInstanceProfile_get_or_create:
  "(ListInstanceProfiles_r w 0 = Inr out \<and> InstanceProfiles out = pre @ p # post \<and>
    (\<forall>q \<in> set pre. roles_named q \<and> \<not> carries q role) \<and> roles_named p \<and> carries p role \<and>
    InstanceProfileName p = Some name \<longrightarrow>
      fst (GetOrCreateInstanceProfile role w) = Return (name, None) \<and>
      trace (snd (GetOrCreateInstanceProfile role w)) =
        trace w @ [Call ListInstanceProfilesReq,
                   Infof ''Instance profile for IAM role %s already exists.'' [AStr role]]) \<and>
   (ListInstanceProfiles_r w 0 = Inr out \<and>
    (\<forall>q \<in> set (InstanceProfiles out). roles_named q \<and> \<not> carries q role) \<and>
    CreateInstanceProfile_r w 0 = None \<and> AddRoleToInstanceProfile_r w 0 = None \<longrightarrow>
      fst (GetOrCreateInstanceProfile role w) = Return (role, None) \<and>
      trace (snd (GetOrCreateInstanceProfile role w)) =
        trace w @ [Call ListInstanceProfilesReq,
                   Call (CreateInstanceProfileReq role),
                   Infof ''Created instance profile %s'' [AStr role],
                   Call (AddRoleToInstanceProfileReq role role),
                   Infof ''Attached role %s to instance profile %s'' [AStr role, AStr role]]) \<and>
   (GetOrCreateInstanceProfile role w = (Return (name, None), w1) \<and>
    ListInstanceProfiles_r w 1 = Inr out2 \<and> InstanceProfiles out2 = pre2 @ p2 # post2 \<and>
    (\<forall>q \<in> set pre2. roles_named q \<and> \<not> carries q role) \<and> roles_named p2 \<and> carries p2 role \<and>
    InstanceProfileName p2 = Some name \<longrightarrow>
      fst (GetOrCreateInstanceProfile role w1) = Return (name, None) \<and>
      trace (snd (GetOrCreateInstanceProfile role w1)) =
        trace w1 @ [Call ListInstanceProfilesReq,
                    Infof ''Instance profile for IAM role %s already exists.'' [AStr role]])"
proof (intro conjI impI)
  assume a: "ListInstanceProfiles_r w 0 = Inr out \<and> InstanceProfiles out = pre @ p # post \<and>
    (\<forall>q \<in> set pre. roles_named q \<and> \<not> carries q role) \<and> roles_named p \<and> carries p role \<and>
    InstanceProfileName p = Some name"
  then have f: "find_profile (InstanceProfiles out) role = Found p"
    by (simp add: find_profile_first)
  from a f show "fst (GetOrCreateInstanceProfile role w) = Return (name, None)"
    by (simp add: GetOrCreateInstanceProfile_found)
  from a f show "trace (snd (GetOrCreateInstanceProfile role w)) =
        trace w @ [Call ListInstanceProfilesReq,
                   Infof ''Instance profile for IAM role %s already exists.'' [AStr role]]"
    by (simp add: GetOrCreateInstanceProfile_found)
next
  assume a: "ListInstanceProfiles_r w 0 = Inr out \<and>
    (\<forall>q \<in> set (InstanceProfiles out). roles_named q \<and> \<not> carries q role) \<and>
    CreateInstanceProfile_r w 0 = None \<and> AddRoleToInstanceProfile_r w 0 = None"
  then have f: "find_profile (InstanceProfiles out) role = Absent"
    by (simp add: find_profile_none)
  from a f show "fst (GetOrCreateInstanceProfile role w) = Return (role, None)"
    by (simp add: GetOrCreateInstanceProfile_created)
  from a f show "trace (snd (GetOrCreateInstanceProfile role w)) =
        trace w @ [Call ListInstanceProfilesReq,
                   Call (CreateInstanceProfileReq role),
                   Infof ''Created instance profile %s'' [AStr role],
                   Call (AddRoleToInstanceProfileReq role role),
                   Infof ''Attached role %s to instance profile %s'' [AStr role, AStr role]]"
    by (simp add: GetOrCreateInstanceProfile_created)
next
  assume a: "GetOrCreateInstanceProfile role w = (Return (name, None), w1) \<and>
    ListInstanceProfiles_r w 1 = Inr out2 \<and> InstanceProfiles out2 = pre2 @ p2 # post2 \<and>
    (\<forall>q \<in> set pre2. roles_named q \<and> \<not> carries q role) \<and> roles_named p2 \<and> carries p2 role \<and>
    InstanceProfileName p2 = Some name"
  then have "snd (GetOrCreateInstanceProfile role w) = w1"
    by simp
  then have "ListInstanceProfiles_r w1 = (\<lambda>n. ListInstanceProfiles_r w (Suc n))"
    using GetOrCreateInstanceProfile_lists_once[of role w] by simp
  then have l: "ListInstanceProfiles_r w1 0 = Inr out2"
    using a by simp
  from a have f: "find_profile (InstanceProfiles out2) role = Found p2"
    by (simp add: find_profile_first)
  from a l f show "fst (GetOrCreateInstanceProfile role w1) = Return (name, None)"
    by (simp add: GetOrCreateInstanceProfile_found)
  from a l f show "trace (snd (GetOrCreateInstanceProfile role w1)) =
        trace w1 @ [Call ListInstanceProfilesReq,
                    Infof ''Instance profile for IAM role %s already exists.'' [AStr role]]"
    by (simp add: GetOrCreateInstanceProfile_found)
qed

text \<open>A collaborator that lists no profile at first, and the created one afterwards.\<close>

definition ci_profile :: InstanceProfile where
  "ci_profile = \<lparr>InstanceProfileName = Some ''ci-role'', Roles = [\<lparr>RoleName = Some ''ci-role''\<rparr>]\<rparr>"

definition iam_world :: world where
  "iam_world = idle_world
     \<lparr>ListInstanceProfiles_r :=
        (\<lambda>n. if n = 0 then Inr \<lparr>InstanceProfiles = []\<rparr> else Inr \<lparr>InstanceProfiles = [ci_profile]\<rparr>),
      CreateInstanceProfile_r := (\<lambda>n. None),
      AddRoleToInstanceProfile_r := (\<lambda>n. None)\<rparr>"

theorem GetOrCreateInstanceProfile_get_or_create_witness:
  "fst (GetOrCreateInstanceProfile ''ci-role'' iam_world) = Return (''ci-role'', None) \<and>
   fst (GetOrCreateInstanceProfile ''ci-role'' (snd (GetOrCreateInstanceProfile ''ci-role'' iam_world)))
     = Return (''ci-role'', None) \<and>
   trace (snd (GetOrCreateInstanceProfile ''ci-role'' (snd (GetOrCreateInstanceProfile ''ci-role'' iam_world))))
     = [Call ListInstanceProfilesReq,
        Call (CreateInstanceProfileReq ''ci-role''),
        Infof ''Created instance profile %s'' [AStr ''ci-role''],
        Call (AddRoleToInstanceProfileReq ''ci-role'' ''ci-role''),
        Infof ''Attached role %s to instance profile %s'' [AStr ''ci-role'', AStr ''ci-role''],
        Call ListInstanceProfilesReq,
        Infof ''Instance profile for IAM role %s already exists.'' [AStr ''ci-role'']]"
proof -
  let ?w1 = "snd (GetOrCreateInstanceProfile ''ci-role'' iam_world)"
  have b: "ListInstanceProfiles_r iam_world 0 = Inr \<lparr>InstanceProfiles = []\<rparr> \<and>
    (\<forall>q \<in> set (InstanceProfiles \<lparr>InstanceProfiles = []\<rparr>). roles_named q \<and> \<not> carries q ''ci-role'') \<and>
    CreateInstanceProfile_r iam_world 0 = None \<and> AddRoleToInstanceProfile_r iam_world 0 = None"
    by (simp add: iam_world_def idle_world_def)
  note first = GetOrCreateInstanceProfile_get_or_create[where w=iam_world and role="''ci-role''"
      and out="\<lparr>InstanceProfiles = []\<rparr>", THEN conjunct2, THEN conjunct1, THEN mp, OF b]
  have c: "GetOrCreateInstanceProfile ''ci-role'' iam_world = (Return (''ci-role'', None), ?w1) \<and>
    ListInstanceProfiles_r iam_world 1 = Inr \<lparr>InstanceProfiles = [ci_profile]\<rparr> \<and>
    InstanceProfiles \<lparr>InstanceProfiles = [ci_profile]\<rparr> = [] @ ci_profile # [] \<and>
    (\<forall>q \<in> set []. roles_named q \<and> \<not> carries q ''ci-role'') \<and> roles_named ci_profile \<and>
    carries ci_profile ''ci-role'' \<and> InstanceProfileName ci_profile = Some ''ci-role''"
    using first
    by (simp add: iam_world_def idle_world_def ci_profile_def roles_named_def carries_def
        prod_eq_iff)
  note second = GetOrCreateInstanceProfile_get_or_create[where w=iam_world and role="''ci-role''"
      and name="''ci-role''" and ?w1.0="?w1" and ?out2.0="\<lparr>InstanceProfiles = [ci_profile]\<rparr>"
      and ?pre2.0="[]" and ?p2.0=ci_profile and ?post2.0="[]",
      THEN conjunct2, THEN conjunct2, THEN mp, OF c]
  have t0: "trace iam_world = []"
    by (simp add: iam_world_def idle_world_def)
  show ?thesis
    using first second by (simp add: t0)
qed

section \<open>CreateAndStartEC2Instance: malformed tag specifications\<close>

text \<open>
  C8. When the tag-specifications string is not empty and the JSON decoder rejects it,
  \<open>CreateAndStartEC2Instance\<close> logs the parse error and the process exits with status 1;
  the world it leaves differs from the one it started in by that log line only, so no
  \<open>RunInstances\<close> call (indeed no API call) was made. The same holds of a whole start
  invocation through \<open>getInputs\<close>.
\<close>

theorem CreateAndStartEC2Instance_rejects_malformed_tags:
  "(tagSpecifications \<noteq> '''' \<and> Unmarshal E tagSpecifications = Inl err \<longrightarrow>
      CreateAndStartEC2Instance E ec2AmiId subnetId securityGroupId iamRoleName instanceType userData
          tagSpecifications w =
        Some (Exit 1, emit (Errorf ''Error parsing tag specifications: %v'' [AErr err]) w)) \<and>
   (GetInput E ''mode'' = ''start'' \<and> GetInput E ''ec2-image-id'' \<noteq> '''' \<and>
    GetInput E ''subnet-id'' \<noteq> '''' \<and> GetInput E ''security-group-id'' \<noteq> '''' \<and>
    Atoi (GetInput E ''command-max-wait-secs'') = Inr n \<and> LoadDefaultConfig_r E = None \<and>
    GetInput E ''tag-specifications'' \<noteq> '''' \<and>
    Unmarshal E (GetInput E ''tag-specifications'') = Inl err \<longrightarrow>
      getInputs E w =
        Some (Exit 1, w\<lparr>trace := trace w @
          (if n \<le> 5 then [Warningf ''command-max-wait-secs raised to minimum 6 seconds'' []] else []) @
          [LoadDefaultConfig, Errorf ''Error parsing tag specifications: %v'' [AErr err]]\<rparr>))"
proof (intro conjI impI)
  assume "tagSpecifications \<noteq> '''' \<and> Unmarshal E tagSpecifications = Inl err"
  then show "CreateAndStartEC2Instance E ec2AmiId subnetId securityGroupId iamRoleName instanceType
      userData tagSpecifications w =
        Some (Exit 1, emit (Errorf ''Error parsing tag specifications: %v'' [AErr err]) w)"
    by (simp add: CreateAndStartEC2Instance_def and_then_def Fatalf_def)
next
  assume a: "GetInput E ''mode'' = ''start'' \<and> GetInput E ''ec2-image-id'' \<noteq> '''' \<and>
    GetInput E ''subnet-id'' \<noteq> '''' \<and> GetInput E ''security-group-id'' \<noteq> '''' \<and>
    Atoi (GetInput E ''command-max-wait-secs'') = Inr n \<and> LoadDefaultConfig_r E = None \<and>
    GetInput E ''tag-specifications'' \<noteq> '''' \<and>
    Unmarshal E (GetInput E ''tag-specifications'') = Inl err"
  then have c: "\<And>a s g r t u w. CreateAndStartEC2Instance E a s g r t u (GetInput E ''tag-specifications'') w =
        Some (Exit 1, emit (Errorf ''Error parsing tag specifications: %v'' [AErr err]) w)"
    by (simp add: CreateAndStartEC2Instance_def and_then_def Fatalf_def)
  from a show "getInputs E w =
        Some (Exit 1, w\<lparr>trace := trace w @
          (if n \<le> 5 then [Warningf ''command-max-wait-secs raised to minimum 6 seconds'' []] else []) @
          [LoadDefaultConfig, Errorf ''Error parsing tag specifications: %v'' [AErr err]]\<rparr>)"
    by (simp add: getInputs_def c and_then_def emit_def)
qed

text \<open>A start invocation whose tag specifications are not JSON.\<close>

definition start_env :: env where
  "start_env =
     \<lparr>GetInput = (\<lambda>name.
         if name = ''mode'' then ''start''
         else if name = ''ec2-image-id'' then ''ami-1''
         else if name = ''subnet-id'' then ''subnet-1''
         else if name = ''security-group-id'' then ''sg-1''
         else if name = ''tag-specifications'' then ''[{oops''
         else if name = ''command-max-wait-secs'' then ''300''
         else ''''),
      LoadDefaultConfig_r = None,
      Unmarshal = (\<lambda>s. Inl (ApiError ''invalid character'')),
      EncodeToString = (\<lambda>s. s),
      WaitForOutput = (\<lambda>commandId instanceId maxWait w. Some (Inl (ApiError ''unavailable''), w))\<rparr>"

theorem CreateAndStartEC2Instance_rejects_malformed_tags_witness:
  "getInputs start_env idle_world =
     Some (Exit 1, idle_world\<lparr>trace :=
       [LoadDefaultConfig, Errorf ''Error parsing tag specifications: %v'' [AErr (ApiError ''invalid character'')]]\<rparr>)"
proof -
  have a: "GetInput start_env ''mode'' = ''start'' \<and> GetInput start_env ''ec2-image-id'' \<noteq> '''' \<and>
    GetInput start_env ''subnet-id'' \<noteq> '''' \<and> GetInput start_env ''security-group-id'' \<noteq> '''' \<and>
    Atoi (GetInput start_env ''command-max-wait-secs'') = Inr 300 \<and>
    LoadDefaultConfig_r start_env = None \<and>
    GetInput start_env ''tag-specifications'' \<noteq> '''' \<and>
    Unmarshal start_env (GetInput start_env ''tag-specifications'') = Inl (ApiError ''invalid character'')"
    by (simp add: start_env_def Atoi_def is_digit_def)
  have t: "trace idle_world = []"
    by (simp add: idle_world_def)
  show ?thesis
    using CreateAndStartEC2Instance_rejects_malformed_tags[where E=start_env and w=idle_world
        and n=300 and err="ApiError ''invalid character''", THEN conjunct2, THEN mp, OF a]
    by (simp add: t)
qed

section \<open>getInputs: the wait time is parsed before the mode is looked at\<close>

text \<open>A text that is an integer in decimal notation: an optional sign, then digits.\<close>

definition integer_text :: "string \<Rightarrow> bool" where
  "integer_text s =
     (case s of
        [] \<Rightarrow> False
      | c # cs \<Rightarrow>
          if c = CHR ''+'' \<or> c = CHR ''-'' then cs \<noteq> [] \<and> list_all is_digit cs
          else list_all is_digit s)"

lemma Atoi_not_integer_text:
  "\<not> integer_text s \<Longrightarrow> Atoi s = Inl (NumError ''Atoi'' s ''invalid syntax'')"
  by (cases s) (auto simp: Atoi_def integer_text_def Let_def)

text \<open>
  C10. For every mode that is set (start and stop included), when the
  command-max-wait-secs input does not parse, \<open>getInputs\<close> returns the parse error and
  leaves the world untouched: no configuration is loaded, no mode branch runs and no
  collaborator is called. That is so for every text that is not an integer, and for the
  empty text: no default (the documented 300) is put in its place.
\<close>

theorem getInputs_parses_wait_first:
  "(GetInput E ''mode'' \<noteq> '''' \<and> Atoi (GetInput E ''command-max-wait-secs'') = Inl err \<longrightarrow>
      getInputs E w = Some (Return (Some err), w)) \<and>
   (GetInput E ''mode'' \<noteq> '''' \<and> \<not> integer_text (GetInput E ''command-max-wait-secs'') \<longrightarrow>
      getInputs E w =
        Some (Return (Some (NumError ''Atoi'' (GetInput E ''command-max-wait-secs'') ''invalid syntax'')), w)) \<and>
   (GetInput E ''mode'' \<noteq> '''' \<and> GetInput E ''command-max-wait-secs'' = '''' \<longrightarrow>
      getInputs E w = Some (Return (Some (NumError ''Atoi'' '''' ''invalid syntax'')), w))"
proof (intro conjI impI)
  assume "GetInput E ''mode'' \<noteq> '''' \<and> Atoi (GetInput E ''command-max-wait-secs'') = Inl err"
  then show "getInputs E w = Some (Return (Some err), w)"
    by (simp add: getInputs_def)
next
  assume a: "GetInput E ''mode'' \<noteq> '''' \<and> \<not> integer_text (GetInput E ''command-max-wait-secs'')"
  then have "Atoi (GetInput E ''command-max-wait-secs'')
      = Inl (NumError ''Atoi'' (GetInput E ''command-max-wait-secs'') ''invalid syntax'')"
    by (simp add: Atoi_not_integer_text)
  with a show "getInputs E w =
        Some (Return (Some (NumError ''Atoi'' (GetInput E ''command-max-wait-secs'') ''invalid syntax'')), w)"
    by (simp add: getInputs_def)
next
  assume a: "GetInput E ''mode'' \<noteq> '''' \<and> GetInput E ''command-max-wait-secs'' = ''''"
  then have "Atoi (GetInput E ''command-max-wait-secs'') = Inl (NumError ''Atoi'' '''' ''invalid syntax'')"
    by (simp add: Atoi_def)
  with a show "getInputs E w = Some (Return (Some (NumError ''Atoi'' '''' ''invalid syntax'')), w)"
    by (simp add: getInputs_def)
qed

text \<open>A stop invocation that leaves command-max-wait-secs unset.\<close>

definition stop_env :: env where
  "stop_env =
     \<lparr>GetInput = (\<lambda>name.
         if name = ''mode'' then ''stop''
         else if name = ''ec2-instance-id'' then ''i-1''
         else ''''),
      LoadDefaultConfig_r = None,
      Unmarshal = (\<lambda>s. Inl (ApiError ''invalid character'')),
      EncodeToString = (\<lambda>s. s),
      WaitForOutput = (\<lambda>commandId instanceId maxWait w. Some (Inl (ApiError ''unavailable''), w))\<rparr>"

theorem getInputs_parses_wait_first_witness:
  "getInputs stop_env idle_world = Some (Return (Some (NumError ''Atoi'' '''' ''invalid syntax'')), idle_world)"
proof -
  have a: "GetInput stop_env ''mode'' \<noteq> '''' \<and> GetInput stop_env ''command-max-wait-secs'' = ''''"
    by (simp add: stop_env_def)
  show ?thesis
    using getInputs_parses_wait_first[where E=stop_env and w=idle_world,
        THEN conjunct2, THEN conjunct2, THEN mp, OF a] .
qed

section \<open>ExecuteCommandOnEC2Instance: what is logged of a resolved invocation\<close>

lemma ExecuteCommandOnEC2Instance_resolved:
  assumes "IsSSMAgentRegistered i 60 5 w = Some (Return (True, None), w1)"
      and "SendCommand_r w1 0 = Inr resp" and "Command resp = Some (Some cid)"
      and "WaitForOutput E cid i (seconds m) (snd (ssm_SendCommand [i] ''AWS-RunShellScript'' [cmd] w1))
             = Some (Inr d, w3)"
      and "StandardErrorContent d = Some err" and "StandardOutputContent d = Some out"
  shows "ExecuteCommandOnEC2Instance E i cmd m w =
     Some (Return (cid, None),
           w3\<lparr>trace := trace w3 @
             [Group ''Command invocation details'',
              Infof ''ResponseCode: %d'' [AInt (ResponseCode d)],
              Infof ''Status: %s'' [AStr (Status d)],
              Infof ''StdError: %s'' [AStr err],
              if length out < 1000 then Infof ''StdOutput: %s'' [AStr out]
              else Infof ''(enable debug to see full output)'' [],
              EndGroup]\<rparr>)"
  using assms
  by (simp add: ExecuteCommandOnEC2Instance_def and_then_def GetCommandInvocationDetails_def
      ssm_SendCommand_def emit_def)

text \<open>The agent of \<open>i-1\<close> is online from the first poll, and commands are accepted.\<close>

definition online_world :: world where
  "online_world = idle_world
     \<lparr>DescribeInstanceInformation_r := (\<lambda>n. Inr (online_info ''i-1'')),
      SendCommand_r := (\<lambda>n. Inr \<lparr>Command = Some (Some ''cmd-1'')\<rparr>)\<rparr>"

lemma IsSSMAgentRegistered_at_once:
  assumes "registration_answer i w 0 = Inr (Found ())"
  shows "IsSSMAgentRegistered i 60 5 w =
     Some (Return (True, None),
           emit (Infof ''SSM agent is registered and online for instance %s'' [AStr i])
             (snd (ssm_DescribeInstanceInformation ''InstanceIds'' [i] w)))"
  unfolding IsSSMAgentRegistered_def
  using assms by (intro IsSSMAgentRegistered_loop_online) (simp_all add: seconds_60)

text \<open>
  C9, as the code has it. For every invocation the waiter resolves, once the agent was
  seen online and the command was sent: the invocation is returned by
  \<open>GetCommandInvocationDetails\<close> as the waiter gave it, and the log gets the response
  code, the status, the standard error in full whatever its length, and the standard
  output in full when it is shorter than 1000 bytes, a fixed notice in its place
  otherwise. The call returns the command id.
\<close>

theorem ExecuteCommandOnEC2Instance_logs_output:
  assumes "IsSSMAgentRegistered i 60 5 w = Some (Return (True, None), w1)"
      and "SendCommand_r w1 0 = Inr resp" and "Command resp = Some (Some cid)"
      and "w2 = snd (ssm_SendCommand [i] ''AWS-RunShellScript'' [cmd] w1)"
      and "WaitForOutput E cid i (seconds m) w2 = Some (Inr d, w3)"
      and "StandardErrorContent d = Some err" and "StandardOutputContent d = Some out"
  shows "GetCommandInvocationDetails E i cid m w2 = Some (Inr d, w3) \<and>
     ExecuteCommandOnEC2Instance E i cmd m w =
       Some (Return (cid, None),
             w3\<lparr>trace := trace w3 @
               [Group ''Command invocation details'',
                Infof ''ResponseCode: %d'' [AInt (ResponseCode d)],
                Infof ''Status: %s'' [AStr (Status d)],
                Infof ''StdError: %s'' [AStr err],
                if length out < 1000 then Infof ''StdOutput: %s'' [AStr out]
                else Infof ''(enable debug to see full output)'' [],
                EndGroup]\<rparr>)"
proof
  show "GetCommandInvocationDetails E i cid m w2 = Some (Inr d, w3)"
    using assms(5) by (simp add: GetCommandInvocationDetails_def)
  show "ExecuteCommandOnEC2Instance E i cmd m w =
       Some (Return (cid, None),
             w3\<lparr>trace := trace w3 @
               [Group ''Command invocation details'',
                Infof ''ResponseCode: %d'' [AInt (ResponseCode d)],
                Infof ''Status: %s'' [AStr (Status d)],
                Infof ''StdError: %s'' [AStr err],
                if length out < 1000 then Infof ''StdOutput: %s'' [AStr out]
                else Infof ''(enable debug to see full output)'' [],
                EndGroup]\<rparr>)"
    using assms by (intro ExecuteCommandOnEC2Instance_resolved) simp_all
qed

text \<open>An environment whose waiter resolves at once with the invocation \<open>d\<close>.\<close>

definition resolving :: "GetCommandInvocationOutput \<Rightarrow> env" where
  "resolving d =
     \<lparr>GetInput = (\<lambda>name. ''''), LoadDefaultConfig_r = None,
      Unmarshal = (\<lambda>s. Inl (ApiError ''invalid character'')),
      EncodeToString = (\<lambda>s. s),
      WaitForOutput = (\<lambda>commandId instanceId maxWait w. Some (Inr d, w))\<rparr>"

definition long_output :: GetCommandInvocationOutput where
  "long_output =
     \<lparr>Status = ''Success'', ResponseCode = 0,
      StandardOutputContent = Some (replicate 1000 (CHR ''o'')),
      StandardErrorContent = Some ''warning''\<rparr>"

definition long_error :: GetCommandInvocationOutput where
  "long_error =
     \<lparr>Status = ''Success'', ResponseCode = 0,
      StandardOutputContent = Some ''ok'',
      StandardErrorContent = Some (replicate 1000 (CHR ''e''))\<rparr>"

lemma online_world_answers:
  "registration_answer ''i-1'' online_world 0 = Inr (Found ())"
  by (simp add: registration_answer_def online_world_def idle_world_def online_info_def)

theorem ExecuteCommandOnEC2Instance_logs_output_witness:
  "\<exists>w'. ExecuteCommandOnEC2Instance (resolving long_output) ''i-1'' ''make'' 60 online_world =
          Some (Return (''cmd-1'', None), w') \<and>
        trace w' =
          [Call (DescribeInstanceInformationReq ''InstanceIds'' [''i-1'']),
           Infof ''SSM agent is registered and online for instance %s'' [AStr ''i-1''],
           Call (SendCommandReq [''i-1''] ''AWS-RunShellScript'' [''make'']),
           Group ''Command invocation details'',
           Infof ''ResponseCode: %d'' [AInt 0],
           Infof ''Status: %s'' [AStr ''Success''],
           Infof ''StdError: %s'' [AStr ''warning''],
           Infof ''(enable debug to see full output)'' [],
           EndGroup]"
proof -
  let ?w1 = "emit (Infof ''SSM agent is registered and online for instance %s'' [AStr ''i-1''])
             (snd (ssm_DescribeInstanceInformation ''InstanceIds'' [''i-1''] online_world))"
  let ?w2 = "snd (ssm_SendCommand [''i-1''] ''AWS-RunShellScript'' [''make''] ?w1)"
  have 1: "IsSSMAgentRegistered ''i-1'' 60 5 online_world = Some (Return (True, None), ?w1)"
    by (rule IsSSMAgentRegistered_at_once) (rule online_world_answers)
  have 2: "SendCommand_r ?w1 0 = Inr \<lparr>Command = Some (Some ''cmd-1'')\<rparr>"
    by (simp add: online_world_def idle_world_def emit_def ssm_DescribeInstanceInformation_def issue_def)
  have 3: "Command \<lparr>Command = Some (Some ''cmd-1'')\<rparr> = Some (Some ''cmd-1'')"
    by simp
  have 5: "WaitForOutput (resolving long_output) ''cmd-1'' ''i-1'' (seconds 60) ?w2 = Some (Inr long_output, ?w2)"
    by (simp add: resolving_def)
  have 6: "StandardErrorContent long_output = Some ''warning''"
    and 7: "StandardOutputContent long_output = Some (replicate 1000 (CHR ''o''))"
    by (simp_all add: long_output_def)
  have t: "trace ?w2 =
          [Call (DescribeInstanceInformationReq ''InstanceIds'' [''i-1'']),
           Infof ''SSM agent is registered and online for instance %s'' [AStr ''i-1''],
           Call (SendCommandReq [''i-1''] ''AWS-RunShellScript'' [''make''])]"
    by (simp add: online_world_def idle_world_def emit_def ssm_DescribeInstanceInformation_def
        ssm_SendCommand_def issue_def)
  show ?thesis
    using ExecuteCommandOnEC2Instance_logs_output[OF 1 2 3 refl 5 6 7]
    by (simp add: t long_output_def)
qed

text \<open>
  A standard error of 1000 characters is not elided: it is in the log in full.
\<close>

theorem long_standard_error_is_logged:
  "1000 \<le> length (replicate 1000 (CHR ''e'')) \<and>
   (\<exists>w'. ExecuteCommandOnEC2Instance (resolving long_error) ''i-1'' ''make'' 60 online_world =
          Some (Return (''cmd-1'', None), w') \<and>
        Infof ''StdError: %s'' [AStr (replicate 1000 (CHR ''e''))] \<in> set (trace w'))"
proof -
  let ?w1 = "emit (Infof ''SSM agent is registered and online for instance %s'' [AStr ''i-1''])
             (snd (ssm_DescribeInstanceInformation ''InstanceIds'' [''i-1''] online_world))"
  let ?w2 = "snd (ssm_SendCommand [''i-1''] ''AWS-RunShellScript'' [''make''] ?w1)"
  have 1: "IsSSMAgentRegistered ''i-1'' 60 5 online_world = Some (Return (True, None), ?w1)"
    by (rule IsSSMAgentRegistered_at_once) (rule online_world_answers)
  have 2: "SendCommand_r ?w1 0 = Inr \<lparr>Command = Some (Some ''cmd-1'')\<rparr>"
    by (simp add: online_world_def idle_world_def emit_def ssm_DescribeInstanceInformation_def issue_def)
  have 3: "Command \<lparr>Command = Some (Some ''cmd-1'')\<rparr> = Some (Some ''cmd-1'')"
    by simp
  have 5: "WaitForOutput (resolving long_error) ''cmd-1'' ''i-1'' (seconds 60) ?w2 = Some (Inr long_error, ?w2)"
    by (simp add: resolving_def)
  have 6: "StandardErrorContent long_error = Some (replicate 1000 (CHR ''e''))"
    and 7: "StandardOutputContent long_error = Some ''ok''"
    by (simp_all add: long_error_def)
  show ?thesis
    using ExecuteCommandOnEC2Instance_resolved[OF 1 2 3 5 6 7]
    by simp
qed

section \<open>ExecuteCommandOnEC2Instance with the waiter of the specification\<close>

text \<open>The world after one poll of the waiter that found the invocation not yet resolved.\<close>

definition after_pending_poll :: "string \<Rightarrow> string \<Rightarrow> int \<Rightarrow> world \<Rightarrow> world" where
  "after_pending_poll c i iv w = time_Sleep iv (snd (ssm_GetCommandInvocation c i w))"

lemma after_pending_poll_simps:
  "GetCommandInvocation_r (after_pending_poll c i iv w) n = GetCommandInvocation_r w (Suc n)"
  "clock (after_pending_poll c i iv w) = clock w + int (latency w 0) + max 0 iv"
  "latency (after_pending_poll c i iv w) n = latency w (Suc n)"
  by (simp_all add: after_pending_poll_def time_Sleep_def ssm_GetCommandInvocation_def issue_def)

lemma pollUntil_pending:
  assumes "clock w < deadline" "GetCommandInvocation_r w 0 = Inr p" "\<not> terminal (Status p)"
  shows "pollUntil (invocation_check c i) iv deadline w =
         pollUntil (invocation_check c i) iv deadline (after_pending_poll c i iv w)"
  using assms
  apply (subst pollUntil.simps)
  apply (simp add: invocation_check_def ssm_GetCommandInvocation_def after_pending_poll_def)
  done

lemma pollUntil_done:
  assumes "clock w < deadline" "GetCommandInvocation_r w 0 = Inr d" "terminal (Status d)"
  shows "pollUntil (invocation_check c i) iv deadline w =
         Some (Inr d, snd (ssm_GetCommandInvocation c i w))"
  using assms
  apply (subst pollUntil.simps)
  apply (simp add: invocation_check_def ssm_GetCommandInvocation_def)
  done

lemma pollUntil_resolves:
  assumes "\<forall>j<k. \<exists>p. GetCommandInvocation_r w j = Inr p \<and> \<not> terminal (Status p)"
      and "GetCommandInvocation_r w k = Inr d" and "terminal (Status d)"
      and "clock w + (\<Sum>j<k. int (latency w j) + max 0 iv) < deadline"
  shows "\<exists>w'. pollUntil (invocation_check c i) iv deadline w = Some (Inr d, w')"
  using assms
proof (induction k arbitrary: w)
  case 0
  then show ?case
    by (simp add: pollUntil_done)
next
  case (Suc k)
  let ?w1 = "after_pending_poll c i iv w"
  have sum: "(\<Sum>j<Suc k. int (latency w j) + max 0 iv)
            = int (latency w 0) + max 0 iv + (\<Sum>j<k. int (latency w (Suc j)) + max 0 iv)"
    by (subst sum.lessThan_Suc_shift) simp
  have nonneg: "0 \<le> (\<Sum>j<k. int (latency w (Suc j)) + max 0 iv)"
    by (rule sum_nonneg) simp
  have now: "clock w < deadline"
    using Suc.prems(4) nonneg unfolding sum by linarith
  obtain p where p: "GetCommandInvocation_r w 0 = Inr p" "\<not> terminal (Status p)"
    using Suc.prems(1) by auto
  have step: "pollUntil (invocation_check c i) iv deadline w =
         pollUntil (invocation_check c i) iv deadline ?w1"
    using now p by (rule pollUntil_pending)
  have 1: "\<forall>j<k. \<exists>p. GetCommandInvocation_r ?w1 j = Inr p \<and> \<not> terminal (Status p)"
    using Suc.prems(1) by (simp add: after_pending_poll_simps)
  have 2: "GetCommandInvocation_r ?w1 k = Inr d"
    using Suc.prems(2) by (simp add: after_pending_poll_simps)
  have 3: "clock ?w1 + (\<Sum>j<k. int (latency ?w1 j) + max 0 iv) < deadline"
    using Suc.prems(4) unfolding sum by (simp add: after_pending_poll_simps)
  from Suc.IH[OF 1 2 Suc.prems(3) 3] show ?case
    using step by simp
qed

text \<open>
  C2. With the waiter of the specification: once the agent was seen online and the
  command was sent, if poll \<open>k\<close> of the invocation is the first to show a terminal
  status, success or failed, and starts within the maximal wait, then
  \<open>ExecuteCommandOnEC2Instance\<close> returns the command id without error, whatever the
  status and the response code are, and both are in the log.
\<close>

theorem ExecuteCommandOnEC2Instance_reports_failure:
  assumes "WaitForOutput E = spec_WaitForOutput iv"
      and "IsSSMAgentRegistered i 60 5 w = Some (Return (True, None), w1)"
      and "SendCommand_r w1 0 = Inr resp" and "Command resp = Some (Some cid)"
      and "w2 = snd (ssm_SendCommand [i] ''AWS-RunShellScript'' [cmd] w1)"
      and "\<forall>j<k. \<exists>p. GetCommandInvocation_r w2 j = Inr p \<and> \<not> terminal (Status p)"
      and "GetCommandInvocation_r w2 k = Inr d"
      and "Status d = ''Success'' \<or> Status d = ''Failed''"
      and "(\<Sum>j<k. int (latency w2 j) + max 0 iv) < seconds m"
      and "StandardErrorContent d = Some err" and "StandardOutputContent d = Some out"
  shows "\<exists>w'. ExecuteCommandOnEC2Instance E i cmd m w = Some (Return (cid, None), w') \<and>
           Infof ''ResponseCode: %d'' [AInt (ResponseCode d)] \<in> set (trace w') \<and>
           Infof ''Status: %s'' [AStr (Status d)] \<in> set (trace w')"
proof -
  have "terminal (Status d)"
    using assms(8) by (simp add: terminal_def)
  then obtain w3 where "pollUntil (invocation_check cid i) iv (clock w2 + seconds m) w2 = Some (Inr d, w3)"
    using pollUntil_resolves[OF assms(6) assms(7), of iv "clock w2 + seconds m" cid i] assms(9)
    by auto
  then have "WaitForOutput E cid i (seconds m) (snd (ssm_SendCommand [i] ''AWS-RunShellScript'' [cmd] w1))
             = Some (Inr d, w3)"
    using assms(1) assms(5) by (simp add: spec_WaitForOutput_def)
  from ExecuteCommandOnEC2Instance_resolved[OF assms(2) assms(3) assms(4) this assms(10) assms(11)]
  show ?thesis
    by simp
qed

text \<open>A command that is in progress at the first poll and has failed with code 2 at the second.\<close>

definition spec_env :: "int \<Rightarrow> env" where
  "spec_env iv =
     \<lparr>GetInput = (\<lambda>name. ''''), LoadDefaultConfig_r = None,
      Unmarshal = (\<lambda>s. Inl (ApiError ''invalid character'')),
      EncodeToString = (\<lambda>s. s),
      WaitForOutput = spec_WaitForOutput iv\<rparr>"

definition in_progress :: GetCommandInvocationOutput where
  "in_progress =
     \<lparr>Status = ''InProgress'', ResponseCode = -1,
      StandardOutputContent = Some '''', StandardErrorContent = Some ''''\<rparr>"

definition failed_invocation :: GetCommandInvocationOutput where
  "failed_invocation =
     \<lparr>Status = ''Failed'', ResponseCode = 2,
      StandardOutputContent = Some '''', StandardErrorContent = Some ''make: *** Error 2''\<rparr>"

definition failing_command_world :: world where
  "failing_command_world =
     online_world\<lparr>GetCommandInvocation_r := (\<lambda>n. if n = 0 then Inr in_progress else Inr failed_invocation)\<rparr>"

theorem ExecuteCommandOnEC2Instance_reports_failure_witness:
  "\<exists>w'. ExecuteCommandOnEC2Instance (spec_env 5000000000) ''i-1'' ''make'' 60 failing_command_world =
          Some (Return (''cmd-1'', None), w') \<and>
        Infof ''ResponseCode: %d'' [AInt 2] \<in> set (trace w') \<and>
        Infof ''Status: %s'' [AStr ''Failed''] \<in> set (trace w')"
proof -
  let ?w = failing_command_world
  let ?w1 = "emit (Infof ''SSM agent is registered and online for instance %s'' [AStr ''i-1''])
             (snd (ssm_DescribeInstanceInformation ''InstanceIds'' [''i-1''] ?w))"
  let ?w2 = "snd (ssm_SendCommand [''i-1''] ''AWS-RunShellScript'' [''make''] ?w1)"
  have 1: "WaitForOutput (spec_env 5000000000) = spec_WaitForOutput 5000000000"
    by (simp add: spec_env_def)
  have "registration_answer ''i-1'' ?w 0 = Inr (Found ())"
    by (simp add: registration_answer_def failing_command_world_def online_world_def idle_world_def
        online_info_def)
  then have 2: "IsSSMAgentRegistered ''i-1'' 60 5 ?w = Some (Return (True, None), ?w1)"
    by (rule IsSSMAgentRegistered_at_once)
  have 3: "SendCommand_r ?w1 0 = Inr \<lparr>Command = Some (Some ''cmd-1'')\<rparr>"
    by (simp add: failing_command_world_def online_world_def idle_world_def emit_def
        ssm_DescribeInstanceInformation_def issue_def)
  have 4: "Command \<lparr>Command = Some (Some ''cmd-1'')\<rparr> = Some (Some ''cmd-1'')"
    by simp
  have r: "GetCommandInvocation_r ?w2 = (\<lambda>n. if n = 0 then Inr in_progress else Inr failed_invocation)"
    and l: "latency ?w2 = (\<lambda>n. 0)"
    by (simp_all add: failing_command_world_def online_world_def idle_world_def emit_def
        ssm_DescribeInstanceInformation_def ssm_SendCommand_def issue_def)
  have 6: "\<forall>j<1. \<exists>p. GetCommandInvocation_r ?w2 j = Inr p \<and> \<not> terminal (Status p)"
    by (simp add: r in_progress_def terminal_def)
  have 7: "GetCommandInvocation_r ?w2 1 = Inr failed_invocation"
    by (simp add: r)
  have 8: "Status failed_invocation = ''Success'' \<or> Status failed_invocation = ''Failed''"
    by (simp add: failed_invocation_def)
  have 9: "(\<Sum>j<1. int (latency ?w2 j) + max 0 5000000000) < seconds 60"
    by (simp add: l seconds_60)
  have 10: "StandardErrorContent failed_invocation = Some ''make: *** Error 2''"
    and 11: "StandardOutputContent failed_invocation = Some ''''"
    by (simp_all add: failed_invocation_def)
  show ?thesis
    using ExecuteCommandOnEC2Instance_reports_failure[OF 1 2 3 4 refl 6 7 8 9 10 11]
    by (simp add: failed_invocation_def)
qed

section \<open>getInputs: the floor of the wait time\<close>

text \<open>
  C5. In a command invocation whose command-max-wait-secs parses as \<open>n\<close>: when
  \<open>n \<le> 5\<close>, a warning is logged and the run goes on (configuration, then the command
  flow) with the wait time 6; when \<open>6 \<le> n\<close>, no warning is logged and the command flow
  gets \<open>n\<close> itself.
\<close>

theorem getInputs_wait_floor:
  "(GetInput E ''mode'' = ''command'' \<and> GetInput E ''ec2-instance-id'' = i \<and> i \<noteq> '''' \<and>
    GetInput E ''command'' = cmd \<and> cmd \<noteq> '''' \<and> LoadDefaultConfig_r E = None \<and>
    Atoi (GetInput E ''command-max-wait-secs'') = Inr n \<and> n \<le> 5 \<longrightarrow>
      getInputs E w =
        and_then
          (ExecuteCommandOnEC2Instance E i cmd 6
             (emit LoadDefaultConfig
                (emit (Warningf ''command-max-wait-secs raised to minimum 6 seconds'' []) w)))
          (\<lambda>(commandId, err) w3.
             case err of
               Some e \<Rightarrow> Some (Return (Some e), w3)
             | None \<Rightarrow>
                 Some (Return None,
                       emit (SetOutput ''command-id'' commandId)
                         (emit (Infof
                            (''Command '' @ [CHR 0x27] @ ''%s'' @ [CHR 0x27] @ '' sent to instance %s. Command ID: %s. Command wait time: %d secs'')
                            [AStr cmd, AStr i, AStr commandId, AInt 6]) w3)))) \<and>
   (GetInput E ''mode'' = ''command'' \<and> GetInput E ''ec2-instance-id'' = i \<and> i \<noteq> '''' \<and>
    GetInput E ''command'' = cmd \<and> cmd \<noteq> '''' \<and> LoadDefaultConfig_r E = None \<and>
    Atoi (GetInput E ''command-max-wait-secs'') = Inr n \<and> 6 \<le> n \<longrightarrow>
      getInputs E w =
        and_then
          (ExecuteCommandOnEC2Instance E i cmd n (emit LoadDefaultConfig w))
          (\<lambda>(commandId, err) w3.
             case err of
               Some e \<Rightarrow> Some (Return (Some e), w3)
             | None \<Rightarrow>
                 Some (Return None,
                       emit (SetOutput ''command-id'' commandId)
                         (emit (Infof
                            (''Command '' @ [CHR 0x27] @ ''%s'' @ [CHR 0x27] @ '' sent to instance %s. Command ID: %s. Command wait time: %d secs'')
                            [AStr cmd, AStr i, AStr commandId, AInt n]) w3))))"
  by (auto simp: getInputs_def)

text \<open>
  A command invocation configured with 3 seconds, and a waiter that sleeps for the whole
  time it is given.
\<close>

definition command_env :: env where
  "command_env =
     \<lparr>GetInput = (\<lambda>name.
         if name = ''mode'' then ''command''
         else if name = ''ec2-instance-id'' then ''i-1''
         else if name = ''command'' then ''echo hi''
         else if name = ''command-max-wait-secs'' then ''3''
         else ''''),
      LoadDefaultConfig_r = None,
      Unmarshal = (\<lambda>s. Inl (ApiError ''invalid character'')),
      EncodeToString = (\<lambda>s. s),
      WaitForOutput = (\<lambda>commandId instanceId maxWait w.
         Some (Inr \<lparr>Status = ''Success'', ResponseCode = 0,
                     StandardOutputContent = Some ''hi'', StandardErrorContent = Some ''''\<rparr>,
               time_Sleep maxWait w))\<rparr>"

lemma trace_emit: "trace (emit e w) = trace w @ [e]"
  by (simp add: emit_def)

theorem getInputs_wait_floor_witness:
  "\<exists>w'. getInputs command_env online_world = Some (Return None, w') \<and>
     trace w' =
       [Warningf ''command-max-wait-secs raised to minimum 6 seconds'' [],
        LoadDefaultConfig,
        Call (DescribeInstanceInformationReq ''InstanceIds'' [''i-1'']),
        Infof ''SSM agent is registered and online for instance %s'' [AStr ''i-1''],
        Call (SendCommandReq [''i-1''] ''AWS-RunShellScript'' [''echo hi'']),
        Sleep 6000000000,
        Group ''Command invocation details'',
        Infof ''ResponseCode: %d'' [AInt 0],
        Infof ''Status: %s'' [AStr ''Success''],
        Infof ''StdError: %s'' [AStr ''''],
        Infof ''StdOutput: %s'' [AStr ''hi''],
        EndGroup,
        Infof (''Command '' @ [CHR 0x27] @ ''%s'' @ [CHR 0x27] @ '' sent to instance %s. Command ID: %s. Command wait time: %d secs'')
          [AStr ''echo hi'', AStr ''i-1'', AStr ''cmd-1'', AInt 6],
        SetOutput ''command-id'' ''cmd-1'']"
proof -
  let ?w0 = "emit LoadDefaultConfig
                (emit (Warningf ''command-max-wait-secs raised to minimum 6 seconds'' []) online_world)"
  let ?w1 = "emit (Infof ''SSM agent is registered and online for instance %s'' [AStr ''i-1''])
             (snd (ssm_DescribeInstanceInformation ''InstanceIds'' [''i-1''] ?w0))"
  let ?w2 = "snd (ssm_SendCommand [''i-1''] ''AWS-RunShellScript'' [''echo hi''] ?w1)"
  let ?d = "\<lparr>Status = ''Success'', ResponseCode = 0,
                     StandardOutputContent = Some ''hi'', StandardErrorContent = Some ''''\<rparr>"
  have a: "GetInput command_env ''mode'' = ''command'' \<and> GetInput command_env ''ec2-instance-id'' = ''i-1'' \<and>
    ''i-1'' \<noteq> '''' \<and> GetInput command_env ''command'' = ''echo hi'' \<and> ''echo hi'' \<noteq> '''' \<and>
    LoadDefaultConfig_r command_env = None \<and>
    Atoi (GetInput command_env ''command-max-wait-secs'') = Inr 3 \<and> (3::int) \<le> 5"
    by (simp add: command_env_def Atoi_def is_digit_def)
  note flow = getInputs_wait_floor[where E=command_env and w=online_world and n=3 and i="''i-1''"
      and cmd="''echo hi''", THEN conjunct1, THEN mp, OF a]
  have "registration_answer ''i-1'' ?w0 0 = Inr (Found ())"
    by (simp add: registration_answer_def online_world_def idle_world_def online_info_def emit_def)
  then have 1: "IsSSMAgentRegistered ''i-1'' 60 5 ?w0 = Some (Return (True, None), ?w1)"
    by (rule IsSSMAgentRegistered_at_once)
  have 2: "SendCommand_r ?w1 0 = Inr \<lparr>Command = Some (Some ''cmd-1'')\<rparr>"
    by (simp add: online_world_def idle_world_def emit_def ssm_DescribeInstanceInformation_def issue_def)
  have 3: "Command \<lparr>Command = Some (Some ''cmd-1'')\<rparr> = Some (Some ''cmd-1'')"
    by simp
  have 5: "WaitForOutput command_env ''cmd-1'' ''i-1'' (seconds 6) ?w2 = Some (Inr ?d, time_Sleep (seconds 6) ?w2)"
    by (simp add: command_env_def)
  have t: "trace (time_Sleep (seconds 6) ?w2) =
       [Warningf ''command-max-wait-secs raised to minimum 6 seconds'' [],
        LoadDefaultConfig,
        Call (DescribeInstanceInformationReq ''InstanceIds'' [''i-1'']),
        Infof ''SSM agent is registered and online for instance %s'' [AStr ''i-1''],
        Call (SendCommandReq [''i-1''] ''AWS-RunShellScript'' [''echo hi'']),
        Sleep 6000000000]"
    by (simp add: online_world_def idle_world_def emit_def ssm_DescribeInstanceInformation_def
        ssm_SendCommand_def issue_def time_Sleep_def seconds_def Second_def)
  have run: "ExecuteCommandOnEC2Instance command_env ''i-1'' ''echo hi'' 6 ?w0 =
     Some (Return (''cmd-1'', None),
           (time_Sleep (seconds 6) ?w2)\<lparr>trace := trace (time_Sleep (seconds 6) ?w2) @
             [Group ''Command invocation details'',
              Infof ''ResponseCode: %d'' [AInt 0],
              Infof ''Status: %s'' [AStr ''Success''],
              Infof ''StdError: %s'' [AStr ''''],
              Infof ''StdOutput: %s'' [AStr ''hi''],
              EndGroup]\<rparr>)"
    using ExecuteCommandOnEC2Instance_resolved[OF 1 2 3 5, of "''''" "''hi''"] by simp
  show ?thesis
    unfolding flow run
    by (simp add: and_then_def trace_emit t)
qed

end
